theory Spec2Isabelle
  imports Main "HOL-Library.Sublist"
begin

section \<open>JavaScript values\<close>

text \<open>
  The plan document is the result of \<^verbatim>\<open>JSON.parse\<close>. A value is \<^verbatim>\<open>undefined\<close> (what a
  read of an absent property gives), \<^verbatim>\<open>null\<close>, a boolean, a number, a string, an array or
  an object. An object is the list of its own properties in insertion order; the parser
  never produces two properties with one name. Numbers are the integers: the program
  only compares numbers and passes them along. Property names are assumed not to be
  names of \<^verbatim>\<open>Object.prototype\<close> members (\<^verbatim>\<open>constructor\<close>, \<^verbatim>\<open>__proto__\<close>, ...), so that a read
  of a name an object does not own gives \<^verbatim>\<open>undefined\<close>.
\<close>

datatype jsval =
    Undefined
  | Null
  | Bool bool
  | Num int
  | Str string
  | Arr "jsval list"
  | Obj "(string \<times> jsval) list"

text \<open>What the program can throw: a \<^verbatim>\<open>TypeError\<close> (a property read on \<^verbatim>\<open>null\<close> or
  \<^verbatim>\<open>undefined\<close>, a call of a method the value does not have), a \<^verbatim>\<open>ReferenceError\<close> (a read
  of an undeclared variable, which it names), a \<^verbatim>\<open>SyntaxError\<close> (a text that is not JSON, a
  pattern that is not a regular expression) and \<^verbatim>\<open>new Error(message)\<close>.\<close>

datatype error =
    TypeError
  | ReferenceError string
  | SyntaxError
  | Error string

definition bindE :: "error + 'a \<Rightarrow> ('a \<Rightarrow> error + 'b) \<Rightarrow> error + 'b" where
  "bindE m f = (case m of Inl e \<Rightarrow> Inl e | Inr x \<Rightarrow> f x)"

subsection \<open>Decimal numerals and array indices\<close>

definition digitChar :: "nat \<Rightarrow> char" where
  "digitChar d = char_of (of_char (CHR ''0'') + d)"

function showNat :: "nat \<Rightarrow> string" where
  "showNat n = (if n < 10 then [digitChar n] else showNat (n div 10) @ [digitChar (n mod 10)])"
  by pat_completeness auto
termination
  by (relation "measure (\<lambda>n. n)") auto

declare showNat.simps [simp del]

definition showInt :: "int \<Rightarrow> string" where
  "showInt i = (if i < 0 then CHR ''-'' # showNat (nat (- i)) else showNat (nat i))"

definition isDigit :: "char \<Rightarrow> bool" where
  "isDigit c = (of_char (CHR ''0'') \<le> (of_char c :: nat) \<and> (of_char c :: nat) \<le> of_char (CHR ''9''))"

definition digitsValue :: "string \<Rightarrow> int" where
  "digitsValue s = foldl (\<lambda>acc c. 10 * acc + (of_char c - of_char (CHR ''0''))) 0 s"

text \<open>An array index is a canonical decimal numeral below \<open>2^32 - 1\<close>. The engine lists the
  own properties of an object with the array indices first, in ascending order, and the
  other names after them in insertion order.\<close>

definition isArrayIndex :: "string \<Rightarrow> bool" where
  "isArrayIndex k = (k \<noteq> [] \<and> list_all isDigit k \<and> (hd k \<noteq> CHR ''0'' \<or> length k = 1)
     \<and> digitsValue k < 4294967295)"

definition ownKeys :: "(string \<times> 'a) list \<Rightarrow> string list" where
  "ownKeys kvs = sort_key digitsValue (filter isArrayIndex (map fst kvs))
     @ filter (\<lambda>k. \<not> isArrayIndex k) (map fst kvs)"

subsection \<open>Property access\<close>

fun typeof :: "jsval \<Rightarrow> string" where
  "typeof Undefined = ''undefined''"
| "typeof Null = ''object''"
| "typeof (Bool b) = ''boolean''"
| "typeof (Num n) = ''number''"
| "typeof (Str s) = ''string''"
| "typeof (Arr xs) = ''object''"
| "typeof (Obj kvs) = ''object''"

fun isArray :: "jsval \<Rightarrow> bool" where
  "isArray (Arr xs) = True"
| "isArray v = False"

definition elemAt :: "jsval list \<Rightarrow> nat \<Rightarrow> jsval" where
  "elemAt xs j = (if j < length xs then xs ! j else Undefined)"

text \<open>\<^verbatim>\<open>x[k]\<close> and \<^verbatim>\<open>x.k\<close>: a \<^verbatim>\<open>TypeError\<close> on \<^verbatim>\<open>null\<close> and \<^verbatim>\<open>undefined\<close>.\<close>

fun getProp :: "jsval \<Rightarrow> string \<Rightarrow> error + jsval" where
  "getProp Undefined k = Inl TypeError"
| "getProp Null k = Inl TypeError"
| "getProp (Bool b) k = Inr Undefined"
| "getProp (Num n) k = Inr Undefined"
| "getProp (Str s) k =
     (if k = ''length'' then Inr (Num (int (length s)))
      else if isArrayIndex k \<and> digitsValue k < int (length s)
        then Inr (Str [s ! nat (digitsValue k)])
      else Inr Undefined)"
| "getProp (Arr xs) k =
     (if k = ''length'' then Inr (Num (int (length xs)))
      else if isArrayIndex k then Inr (elemAt xs (nat (digitsValue k)))
      else Inr Undefined)"
| "getProp (Obj kvs) k = (case map_of kvs k of None \<Rightarrow> Inr Undefined | Some v \<Rightarrow> Inr v)"

text \<open>\<^verbatim>\<open>Object.keys(x)\<close>.\<close>

fun objectKeys :: "jsval \<Rightarrow> error + string list" where
  "objectKeys Undefined = Inl TypeError"
| "objectKeys Null = Inl TypeError"
| "objectKeys (Bool b) = Inr []"
| "objectKeys (Num n) = Inr []"
| "objectKeys (Str s) = Inr (map showNat [0..<length s])"
| "objectKeys (Arr xs) = Inr (map showNat [0..<length xs])"
| "objectKeys (Obj kvs) = Inr (ownKeys kvs)"

text \<open>\<^verbatim>\<open>delete x.k\<close> removes an own property of an object and leaves every other value as
  it is; on \<^verbatim>\<open>null\<close> and \<^verbatim>\<open>undefined\<close> it throws.\<close>

fun deleteProp :: "jsval \<Rightarrow> string \<Rightarrow> error + jsval" where
  "deleteProp Undefined k = Inl TypeError"
| "deleteProp Null k = Inl TypeError"
| "deleteProp (Obj kvs) k = Inr (Obj (filter (\<lambda>kv. fst kv \<noteq> k) kvs))"
| "deleteProp v k = Inr v"

text \<open>\<^verbatim>\<open>o[k] = v\<close> on an object under construction: an existing property keeps its place.\<close>

fun setKey :: "string \<Rightarrow> 'a \<Rightarrow> (string \<times> 'a) list \<Rightarrow> (string \<times> 'a) list" where
  "setKey k v [] = [(k, v)]"
| "setKey k v ((k', v') # kvs) = (if k' = k then (k, v) # kvs else (k', v') # setKey k v kvs)"

subsection \<open>String conversion\<close>

text \<open>\<^verbatim>\<open>String(v)\<close>, the conversion of a value inside a template literal and of an
  argument that has to be a string.\<close>

fun toStr :: "jsval \<Rightarrow> string" and joinItems :: "jsval list \<Rightarrow> string" where
  "toStr Undefined = ''undefined''"
| "toStr Null = ''null''"
| "toStr (Bool b) = (if b then ''true'' else ''false'')"
| "toStr (Num n) = showInt n"
| "toStr (Str s) = s"
| "toStr (Arr xs) = joinItems xs"
| "toStr (Obj kvs) = ''[object Object]''"
| "joinItems [] = []"
| "joinItems (x # xs) =
     (if x = Null \<or> x = Undefined then [] else toStr x)
       @ (if xs = [] then [] else '','' @ joinItems xs)"

section \<open>The constants of the class\<close>

definition KNOWN_AFTER_APPLY :: string where
  "KNOWN_AFTER_APPLY = ''(known after apply)''"

datatype change_marker = READ | CREATE | DELETE | UPDATE | UNKNOWN

fun CHANGE_MARKERS :: "change_marker \<Rightarrow> string" where
  "CHANGE_MARKERS READ = ''<=''"
| "CHANGE_MARKERS CREATE = ''+''"
| "CHANGE_MARKERS DELETE = ''-''"
| "CHANGE_MARKERS UPDATE = ''~''"
| "CHANGE_MARKERS UNKNOWN = ''?''"

fun CHANGES :: "change_marker \<Rightarrow> string" where
  "CHANGES READ = ''read''"
| "CHANGES CREATE = ''create''"
| "CHANGES UPDATE = ''update''"
| "CHANGES DELETE = ''delete''"
| "CHANGES UNKNOWN = ''unknown''"

datatype color = RED | GREEN | YELLOW | RESET | BLUE

fun COLOR :: "color \<Rightarrow> string" where
  "COLOR RED = [CHR 0x1b] @ ''[31m''"
| "COLOR GREEN = [CHR 0x1b] @ ''[32m''"
| "COLOR YELLOW = [CHR 0x1b] @ ''[33m''"
| "COLOR RESET = [CHR 0x1b] @ ''[0m''"
| "COLOR BLUE = [CHR 0x1b] @ ''[34m''"

section \<open>The change classifier\<close>

record change_count =
  count_read :: nat
  count_create :: nat
  count_update :: nat
  count_delete :: nat
  count_unknown :: nat

record change_info =
  symbols :: "string list"
  changes :: "string list"

text \<open>The \<^verbatim>\<open>switch\<close> of \<^verbatim>\<open>getResourceChangeInfo\<close>: the case an action falls into. The
  comparison is strict, so a value that is not one of the four strings is the default.\<close>

definition actionKind :: "jsval \<Rightarrow> change_marker" where
  "actionKind action =
     (if action = Str (CHANGES READ) then READ
      else if action = Str (CHANGES CREATE) then CREATE
      else if action = Str (CHANGES UPDATE) then UPDATE
      else if action = Str (CHANGES DELETE) then DELETE
      else UNKNOWN)"

fun symbolColor :: "change_marker \<Rightarrow> color" where
  "symbolColor READ = BLUE"
| "symbolColor CREATE = GREEN"
| "symbolColor UPDATE = YELLOW"
| "symbolColor DELETE = RED"
| "symbolColor UNKNOWN = RED"

definition symbolOf :: "change_marker \<Rightarrow> string" where
  "symbolOf m = COLOR (symbolColor m) @ CHANGE_MARKERS m @ COLOR RESET"

fun tally :: "change_marker \<Rightarrow> change_count \<Rightarrow> change_count" where
  "tally READ c = c\<lparr>count_read := count_read c + 1\<rparr>"
| "tally CREATE c = c\<lparr>count_create := count_create c + 1\<rparr>"
| "tally UPDATE c = c\<lparr>count_update := count_update c + 1\<rparr>"
| "tally DELETE c = c\<lparr>count_delete := count_delete c + 1\<rparr>"
| "tally UNKNOWN c = c\<lparr>count_unknown := count_unknown c + 1\<rparr>"

text \<open>The loop over the actions: one symbol and one change pushed, one counter
  incremented, per action.\<close>

fun classifyActions :: "jsval list \<Rightarrow> change_info \<Rightarrow> change_count \<Rightarrow> change_info \<times> change_count" where
  "classifyActions [] info c = (info, c)"
| "classifyActions (action # rest) info c =
     classifyActions rest
       (info\<lparr>symbols := symbols info @ [symbolOf (actionKind action)],
             changes := changes info @ [CHANGES (actionKind action)]\<rparr>)
       (tally (actionKind action) c)"

text \<open>\<^verbatim>\<open>getResourceChangeInfo(actions, changeCount)\<close>: the result (\<open>None\<close> for \<^verbatim>\<open>null\<close>) and
  the tally as the call leaves it.\<close>

definition getResourceChangeInfo ::
  "jsval list \<Rightarrow> change_count \<Rightarrow> change_info option \<times> change_count" where
  "getResourceChangeInfo actions changeCount =
     (if length actions = 1 \<and> actions ! 0 = Str ''no-op'' then (None, changeCount)
      else (case classifyActions actions \<lparr>symbols = [], changes = []\<rparr> changeCount of
              (info, c) \<Rightarrow> (Some info, c)))"

section \<open>Strings\<close>

text \<open>\<^verbatim>\<open>s.startsWith(p)\<close>, \<^verbatim>\<open>s.indexOf(p) > -1\<close> and \<^verbatim>\<open>s.split(sep)\<close> for a separator of one
  character.\<close>

fun startsWith :: "string \<Rightarrow> string \<Rightarrow> bool" where
  "startsWith s [] = True"
| "startsWith [] (p # ps) = False"
| "startsWith (c # cs) (p # ps) = (c = p \<and> startsWith cs ps)"

fun includesText :: "string \<Rightarrow> string \<Rightarrow> bool" where
  "includesText [] p = (p = [])"
| "includesText (c # cs) p = (startsWith (c # cs) p \<or> includesText cs p)"

fun splitOn :: "char \<Rightarrow> string \<Rightarrow> string list" where
  "splitOn sep [] = [[]]"
| "splitOn sep (c # cs) =
     (if c = sep then [] # splitOn sep cs
      else (case splitOn sep cs of [] \<Rightarrow> [[c]] | t # ts \<Rightarrow> (c # t) # ts))"

section \<open>The plan document\<close>

text \<open>
  An entry of \<^verbatim>\<open>resource_changes\<close>, with the members of its \<^verbatim>\<open>change\<close> object beside its
  own. A member the document lacks is \<open>Undefined\<close>. The entry is an object, its \<^verbatim>\<open>change\<close> is
  an object and \<^verbatim>\<open>change.actions\<close> is an array; the three attribute maps can be any value.
\<close>

record resource_change =
  rc_address :: jsval
  rc_mode :: jsval
  rc_type :: jsval
  rc_name :: jsval
  rc_actions :: "jsval list"
  rc_before :: jsval
  rc_after :: jsval
  rc_after_unknown :: jsval

text \<open>The parsed plan, an object: \<open>resource_changes\<close> is \<open>None\<close> when the member is not an
  array; \<open>configuration\<close> and \<open>planned_values\<close> are the members of these names, \<open>Undefined\<close>
  when the document lacks them.\<close>

record plan =
  resource_changes :: "resource_change list option"
  configuration :: jsval
  planned_values :: jsval

section \<open>The address resolver\<close>

fun findAddress :: "string \<Rightarrow> jsval list \<Rightarrow> error + jsval" where
  "findAddress address [] = Inr Null"
| "findAddress address (item # items) =
     bindE (getProp item ''address'')
       (\<lambda>a. if a = Str address then Inr item else findAddress address items)"

definition getMatchingAddress :: "string \<Rightarrow> jsval \<Rightarrow> error + jsval" where
  "getMatchingAddress address items =
     (case items of
        Arr xs \<Rightarrow> findAddress address xs
      | _ \<Rightarrow> Inl (Error ''items not array data type as expected.''))"

section \<open>The config graph accessor\<close>

record config_resource_wrapper =
  cw_resource :: jsval
  cw_moduleName :: string

definition changeAddressNotFound :: "string \<Rightarrow> error" where
  "changeAddressNotFound fullAddress =
     Error (''Couldn't find change address ['' @ fullAddress @ ''] in plan JSON.'')"

text \<open>\<^verbatim>\<open>getConfigResourceWrapper(fullAddress, fullJson)\<close>. \<^verbatim>\<open>fullAddress.split\<close> is a
  \<^verbatim>\<open>TypeError\<close> unless the address is a string. The test before the \<^verbatim>\<open>throw\<close> compares with
  \<^verbatim>\<open>undefined\<close>, as the source does.\<close>

definition getConfigResourceWrapper :: "jsval \<Rightarrow> plan \<Rightarrow> error + config_resource_wrapper" where
  "getConfigResourceWrapper fullAddress fullJson =
     (case fullAddress of
        Str addr \<Rightarrow>
          (let addressTokens = splitOn (CHR ''.'') addr;
               tokenCount = length addressTokens
           in bindE
                (if tokenCount \<le> 2 then
                   bindE (getProp (configuration fullJson) ''root_module'') (\<lambda>root.
                   bindE (getProp root ''resources'') (\<lambda>items.
                   bindE (getMatchingAddress addr items) (\<lambda>configResource.
                   Inr (configResource, ''root_module''))))
                 else
                   bindE (getProp (configuration fullJson) ''root_module'') (\<lambda>root.
                   bindE (getProp root ''module_calls'') (\<lambda>calls.
                   bindE (getProp calls (addressTokens ! (tokenCount - 3))) (\<lambda>call.
                   bindE (getProp call ''module'') (\<lambda>module.
                   bindE (getProp module ''resources'') (\<lambda>items.
                   bindE (getMatchingAddress
                            (addressTokens ! (tokenCount - 2) @ ''.'' @ addressTokens ! (tokenCount - 1))
                            items) (\<lambda>configResource.
                   Inr (configResource, addressTokens ! (tokenCount - 3)))))))))
                (\<lambda>(configResource, moduleName).
                   if configResource = Undefined then Inl (changeAddressNotFound addr)
                   else Inr \<lparr>cw_resource = configResource, cw_moduleName = moduleName\<rparr>))
      | _ \<Rightarrow> Inl TypeError)"

section \<open>The planned-values lookup\<close>

text \<open>The loop over \<^verbatim>\<open>child_modules\<close>: \<open>Some r\<close> when it returns \<open>r\<close>, \<open>None\<close> when it ends or
  leaves by \<^verbatim>\<open>break\<close>.\<close>

fun searchChildModules :: "string \<Rightarrow> string \<Rightarrow> jsval list \<Rightarrow> error + jsval option" where
  "searchChildModules relativeAddress moduleName [] = Inr None"
| "searchChildModules relativeAddress moduleName (childModule # rest) =
     bindE (getProp childModule ''address'') (\<lambda>a.
       if a = Str (''module.'' @ moduleName) then
         bindE (getProp childModule ''resources'') (\<lambda>items.
         bindE (getMatchingAddress (''module.'' @ moduleName @ ''.'' @ relativeAddress) items)
           (\<lambda>found. if found \<noteq> Null then Inr (Some found) else Inr None))
       else searchChildModules relativeAddress moduleName rest)"

text \<open>\<^verbatim>\<open>getPlannedValuesModuleResource(relativeAddress, moduleName, fullJson)\<close>. The last
  statement of the source is
  \<^verbatim>\<open>return this.getMatchingAddress(fullAddress, fullJson.planned_values.root_module.resources)\<close>
  and no variable \<^verbatim>\<open>fullAddress\<close> is declared in the method or the module: evaluating the
  first argument throws a \<^verbatim>\<open>ReferenceError\<close> before anything is searched.\<close>

definition getPlannedValuesModuleResource :: "string \<Rightarrow> string \<Rightarrow> plan \<Rightarrow> error + jsval" where
  "getPlannedValuesModuleResource relativeAddress moduleName fullJson =
     (if moduleName = ''root_module'' then
        bindE (getProp (planned_values fullJson) ''root_module'') (\<lambda>root.
        bindE (getProp root ''resources'') (\<lambda>items.
        getMatchingAddress relativeAddress items))
      else
        bindE (getProp (planned_values fullJson) ''root_module'') (\<lambda>root.
        bindE (getProp root ''child_modules'') (\<lambda>children.
        bindE (case children of
                 Arr xs \<Rightarrow> searchChildModules relativeAddress moduleName xs
               | _ \<Rightarrow> Inr None) (\<lambda>found.
        case found of
          Some r \<Rightarrow> Inr r
        | None \<Rightarrow> Inl (ReferenceError ''fullAddress'')))))"

section \<open>The libraries\<close>

text \<open>
  The program calls two packages and two built-in functions whose code is not part of the
  repository. They are parameters of the model:
  \<^item> \<open>DEEPMERGE lib target source\<close> is \<^verbatim>\<open>deepmerge(target, source)\<close>;
  \<^item> \<open>DEEPEQUAL lib a b\<close> is \<^verbatim>\<open>deepEql(a, b)\<close>;
  \<^item> \<open>JSON_parse lib v\<close> is \<^verbatim>\<open>JSON.parse(v)\<close>, \<open>None\<close> when it throws;
  \<^item> \<open>RegExp_replace lib varKey value template\<close> is
    \<^verbatim>\<open>template.replace(new RegExp(`\\$\\{${varKey}\\}`, "gm"), value)\<close>.
\<close>

record library =
  DEEPMERGE :: "jsval \<Rightarrow> jsval \<Rightarrow> error + jsval"
  DEEPEQUAL :: "jsval \<Rightarrow> jsval \<Rightarrow> bool"
  JSON_parse :: "jsval \<Rightarrow> jsval option"
  RegExp_replace :: "string \<Rightarrow> jsval \<Rightarrow> string \<Rightarrow> error + string"

section \<open>The value predictor\<close>

record diff =
  oldValue :: jsval
  newValue :: jsval

definition namesTemplateFile :: "string \<Rightarrow> bool" where
  "namesTemplateFile reference =
     (startsWith reference ''data.template_file.'' \<or> includesText reference ''.data.template_file.'')"

text \<open>The loop that splices the variables into the template, one variable after the
  other in the order of \<^verbatim>\<open>Object.keys(templateVars)\<close>.\<close>

fun spliceVars :: "library \<Rightarrow> jsval \<Rightarrow> string list \<Rightarrow> string \<Rightarrow> error + string" where
  "spliceVars lib templateVars [] template = Inr template"
| "spliceVars lib templateVars (varKey # varKeys) template =
     bindE (getProp templateVars varKey) (\<lambda>v.
     bindE (RegExp_replace lib varKey v template) (\<lambda>template'.
     spliceVars lib templateVars varKeys template'))"

definition templateResourceNotFound :: "string \<Rightarrow> error" where
  "templateResourceNotFound templateAddress =
     Error (''Couldn't find template resource ['' @ templateAddress @ ''] in fullJson'')"

definition renderTemplateResource :: "library \<Rightarrow> jsval \<Rightarrow> error + jsval" where
  "renderTemplateResource lib templateResource =
     bindE (getProp templateResource ''values'') (\<lambda>vals.
     bindE (getProp vals ''template'') (\<lambda>template.
     bindE (getProp vals ''vars'') (\<lambda>templateVars.
     case template of
       Str body \<Rightarrow>
         if typeof templateVars \<noteq> ''object'' then Inr Null
         else bindE (objectKeys templateVars) (\<lambda>varKeys.
              bindE (spliceVars lib templateVars varKeys body) (\<lambda>rendered. Inr (Str rendered)))
     | _ \<Rightarrow> Inr Null)))"

definition getPredictedNewValue ::
  "library \<Rightarrow> diff \<Rightarrow> resource_change \<Rightarrow> plan \<Rightarrow> error + jsval" where
  "getPredictedNewValue lib d rc fullJson =
     (if newValue d \<noteq> Str KNOWN_AFTER_APPLY
         \<or> rc_type rc \<notin> {Str ''aws_iam_role_policy'', Str ''aws_sfn_state_machine''}
      then Inr Null
      else
        bindE (getConfigResourceWrapper (rc_address rc) fullJson) (\<lambda>configResourceWrapper.
        bindE (if rc_type rc = Str ''aws_iam_role_policy'' then Inr ''policy''
               else if rc_type rc = Str ''aws_sfn_state_machine'' then Inr ''definition''
               else Inl (Error (''Unexpected resource type: ['' @ toStr (rc_type rc) @ '']'')))
          (\<lambda>dynamicAttribute.
        bindE (getProp (cw_resource configResourceWrapper) ''expressions'') (\<lambda>expressions.
        if typeof expressions \<noteq> ''object'' then Inr Null
        else
        bindE (getProp expressions dynamicAttribute) (\<lambda>expression.
        if typeof expression \<noteq> ''object'' then Inr Null
        else
        bindE (getProp expression ''references'') (\<lambda>references.
        case references of
          Arr refs \<Rightarrow>
            if length refs \<noteq> 1 then Inr Null
            else
              (case refs ! 0 of
                 Str templateAddress \<Rightarrow>
                   if \<not> namesTemplateFile templateAddress then Inr Null
                   else
                     bindE (getPlannedValuesModuleResource templateAddress
                              (cw_moduleName configResourceWrapper) fullJson) (\<lambda>templateResource.
                     if templateResource = Null \<or> templateResource = Undefined
                     then Inl (templateResourceNotFound templateAddress)
                     else renderTemplateResource lib templateResource)
               | _ \<Rightarrow> Inl TypeError)
        | _ \<Rightarrow> Inr Null))))))"

section \<open>What the program prints\<close>

text \<open>
  One event for each \<^verbatim>\<open>console.log\<close>, carrying the values the line is built from. The
  layout of the line (padding, colours, \<^verbatim>\<open>JSON.stringify\<close>) is not modelled.
\<close>

datatype event =
    LeadingBlank
  | ResourceHeader "string list" jsval jsval jsval
  | CloseResource
  | PredictedNoChange "change_marker option" string
  | ComparisonFailed
  | AttributeLine "change_marker option" string jsval jsval
  | UnexpectedCondition string jsval jsval
  | PlanSummary nat nat nat
  | TrailingBlank
  | NoChangesOutput
  | UnexpectedError error
  | ErrorStack error

section \<open>The attribute diff builder\<close>

definition isObject :: "jsval \<Rightarrow> bool" where
  "isObject x = (typeof x = ''object'' \<and> \<not> isArray x)"

definition isEmptyObject :: "jsval \<Rightarrow> error + bool" where
  "isEmptyObject x =
     (if isObject x then bindE (objectKeys x) (\<lambda>keys. Inr (length keys = 0)) else Inr False)"

text \<open>\<^verbatim>\<open>v === undefined || v === null || this.isEmptyObject(v)\<close>\<close>

definition missingOrEmpty :: "jsval \<Rightarrow> error + bool" where
  "missingOrEmpty v = (if v = Undefined \<or> v = Null then Inr True else isEmptyObject v)"

text \<open>The old value of a key: the test on the map is \<^verbatim>\<open>oldState == null\<close>, true of \<^verbatim>\<open>null\<close>
  and of \<^verbatim>\<open>undefined\<close>.\<close>

definition resolveOld :: "jsval \<Rightarrow> string \<Rightarrow> error + jsval" where
  "resolveOld oldState key =
     (if oldState = Null \<or> oldState = Undefined then Inr Null
      else bindE (getProp oldState key) (\<lambda>v.
           bindE (missingOrEmpty v) (\<lambda>collapse. Inr (if collapse then Null else v))))"

text \<open>The new value of a key: the test on the map is \<^verbatim>\<open>newState === null\<close>, false of
  \<^verbatim>\<open>undefined\<close>.\<close>

definition resolveNew :: "jsval \<Rightarrow> string \<Rightarrow> error + jsval" where
  "resolveNew newState key =
     (if newState = Null then Inr Null
      else bindE (getProp newState key) (\<lambda>v.
           bindE (missingOrEmpty v) (\<lambda>collapse. Inr (if collapse then Null else v))))"

subsection \<open>The unknown-value merger\<close>

definition isScalar :: "jsval \<Rightarrow> bool" where
  "isScalar v = (typeof v \<in> {''string'', ''number'', ''boolean''})"

text \<open>\<^verbatim>\<open>(items[j] === undefined) ? {} : items[j]\<close>\<close>

definition itemOrEmpty :: "jsval list \<Rightarrow> nat \<Rightarrow> jsval" where
  "itemOrEmpty items j = (if elemAt items j = Undefined then Obj [] else elemAt items j)"

text \<open>One round of the loop over the two arrays, at index \<open>j\<close>.\<close>

definition mergeItem :: "library \<Rightarrow> jsval list \<Rightarrow> jsval list \<Rightarrow> nat \<Rightarrow> error + jsval" where
  "mergeItem lib newItems afterItems j =
     (let newItem = itemOrEmpty newItems j;
          afterItem = itemOrEmpty afterItems j
      in if isScalar afterItem then
           (if afterItem = Bool False \<and> newItem \<noteq> Null then Inr newItem else Inr afterItem)
         else DEEPMERGE lib newItem afterItem)"

fun mapE :: "('a \<Rightarrow> error + 'b) \<Rightarrow> 'a list \<Rightarrow> error + 'b list" where
  "mapE f [] = Inr []"
| "mapE f (x # xs) =
     (case f x of
        Inl e \<Rightarrow> Inl e
      | Inr y \<Rightarrow> (case mapE f xs of Inl e \<Rightarrow> Inl e | Inr ys \<Rightarrow> Inr (y # ys)))"

definition combinedItems :: "library \<Rightarrow> jsval list \<Rightarrow> jsval list \<Rightarrow> error + jsval list" where
  "combinedItems lib newItems afterItems =
     mapE (mergeItem lib newItems afterItems) [0..<max (length afterItems) (length newItems)]"

text \<open>The body of the loop over the combined keys: what is logged and the record of
  the key.\<close>

definition attributeDiff ::
  "library \<Rightarrow> jsval \<Rightarrow> jsval \<Rightarrow> jsval \<Rightarrow> string \<Rightarrow> error + event list \<times> diff" where
  "attributeDiff lib newState oldState afterState key =
     bindE (resolveOld oldState key) (\<lambda>ov.
     bindE (resolveNew newState key) (\<lambda>nv.
     bindE (getProp afterState key) (\<lambda>av.
     bindE (missingOrEmpty av) (\<lambda>noMarker.
     if noMarker then Inr ([], \<lparr>oldValue = ov, newValue = nv\<rparr>)
     else if av = Bool True then Inr ([], \<lparr>oldValue = ov, newValue = Str KNOWN_AFTER_APPLY\<rparr>)
     else if av = Bool False then Inr ([], \<lparr>oldValue = ov, newValue = nv\<rparr>)
     else if nv = Null then Inr ([], \<lparr>oldValue = ov, newValue = av\<rparr>)
     else
       (case (av, nv) of
          (Arr afterItems, Arr newItems) \<Rightarrow>
            bindE (combinedItems lib newItems afterItems) (\<lambda>items.
            Inr ([], \<lparr>oldValue = ov, newValue = Arr items\<rparr>))
        | _ \<Rightarrow>
            if isObject av \<and> isObject nv then
              bindE (DEEPMERGE lib nv av) (\<lambda>merged.
              Inr ([], \<lparr>oldValue = ov, newValue = merged\<rparr>))
            else Inr ([UnexpectedCondition key nv av], \<lparr>oldValue = ov, newValue = nv\<rparr>))))))"

fun diffLoop ::
  "library \<Rightarrow> jsval \<Rightarrow> jsval \<Rightarrow> jsval \<Rightarrow> string list
     \<Rightarrow> event list \<times> (error + (string \<times> diff) list)" where
  "diffLoop lib newState oldState afterState [] = ([], Inr [])"
| "diffLoop lib newState oldState afterState (key # keys) =
     (case attributeDiff lib newState oldState afterState key of
        Inl e \<Rightarrow> ([], Inl e)
      | Inr (logged, d) \<Rightarrow>
          (case diffLoop lib newState oldState afterState keys of
             (logs, Inl e) \<Rightarrow> (logged @ logs, Inl e)
           | (logs, Inr ds) \<Rightarrow> (logged @ logs, Inr ((key, d) # ds))))"

definition isTemplateFile :: "resource_change \<Rightarrow> bool" where
  "isTemplateFile rc = (rc_mode rc = Str ''data'' \<and> rc_type rc = Str ''template_file'')"

text \<open>The two \<^verbatim>\<open>delete\<close> statements at the head of \<^verbatim>\<open>getAttributeDiffs\<close>.\<close>

definition dropDerived :: "resource_change \<Rightarrow> jsval \<Rightarrow> error + jsval" where
  "dropDerived rc afterState =
     (if isTemplateFile rc then
        bindE (deleteProp afterState ''id'') (\<lambda>a. deleteProp a ''rendered'')
      else Inr afterState)"

definition keysOrEmpty :: "jsval \<Rightarrow> string list" where
  "keysOrEmpty state =
     (if state = Null \<or> state = Undefined then []
      else (case objectKeys state of Inl e \<Rightarrow> [] | Inr keys \<Rightarrow> keys))"

text \<open>The three loops that combine the keys, then \<^verbatim>\<open>Object.keys(diffs)\<close>.\<close>

definition combinedKeys :: "string list \<Rightarrow> string list \<Rightarrow> string list \<Rightarrow> string list" where
  "combinedKeys oldKeys newKeys afterKeys =
     ownKeys (fold (\<lambda>key diffs. setKey key Null diffs) (oldKeys @ newKeys @ afterKeys) [])"

text \<open>
  \<^verbatim>\<open>getAttributeDiffs(newState, oldState, afterState, resource)\<close>. The first argument of
  the model is the library. \<open>afterState_left\<close> is the object \<^verbatim>\<open>afterState\<close> as the call leaves
  it (the call writes to no other object), \<open>logged\<close> what it prints, \<open>outcome\<close> the error it
  throws or the records it returns, in the order of \<^verbatim>\<open>Object.keys\<close>.
\<close>

record attribute_diffs =
  afterState_left :: jsval
  logged :: "event list"
  outcome :: "error + (string \<times> diff) list"

definition getAttributeDiffs ::
  "library \<Rightarrow> jsval \<Rightarrow> jsval \<Rightarrow> jsval \<Rightarrow> resource_change \<Rightarrow> attribute_diffs" where
  "getAttributeDiffs lib newState oldState afterState rc =
     (case dropDerived rc afterState of
        Inl e \<Rightarrow> \<lparr>afterState_left = afterState, logged = [], outcome = Inl e\<rparr>
      | Inr afterState' \<Rightarrow>
          (case objectKeys afterState' of
             Inl e \<Rightarrow> \<lparr>afterState_left = afterState', logged = [], outcome = Inl e\<rparr>
           | Inr afterKeys \<Rightarrow>
               (case diffLoop lib newState oldState afterState'
                       (combinedKeys (keysOrEmpty oldState) (keysOrEmpty newState) afterKeys) of
                  (logs, result) \<Rightarrow>
                    \<lparr>afterState_left = afterState', logged = logs, outcome = result\<rparr>)))"


section \<open>The run\<close>

definition shouldSkipDiffKnownAfter :: "resource_change \<Rightarrow> diff \<Rightarrow> string \<Rightarrow> bool" where
  "shouldSkipDiffKnownAfter rc d attribute =
     (if newValue d \<noteq> Str KNOWN_AFTER_APPLY then False
      else if rc_type rc = Str ''aws_lambda_function''
              \<and> attribute \<in> {''last_modified'', ''qualified_arn''} then True
      else False)"

definition shouldSkipAlways :: "resource_change \<Rightarrow> string \<Rightarrow> bool" where
  "shouldSkipAlways rc attribute =
     (if rc_type rc = Str ''aws_lambda_function'' \<and> attribute \<in> {''source_code_hash''} then True
      else False)"

text \<open>\<^verbatim>\<open>a === b\<close> between an old and a new value. Two arrays or objects are one only when
  they are the same object, and the old and the new value of an attribute never are: they
  come from different members of the parsed document, or the new one is fresh.\<close>

fun strictEq :: "jsval \<Rightarrow> jsval \<Rightarrow> bool" where
  "strictEq (Arr xs) b = False"
| "strictEq (Obj kvs) b = False"
| "strictEq a b = (a = b)"

definition lineMarker :: "diff \<Rightarrow> change_marker option" where
  "lineMarker d =
     (if oldValue d \<noteq> Null \<and> newValue d = Null then Some DELETE
      else if oldValue d = Null \<and> newValue d \<noteq> Null then Some CREATE
      else if \<not> strictEq (oldValue d) (newValue d) then Some UPDATE
      else None)"

text \<open>The condition inside the \<^verbatim>\<open>try\<close>: \<open>None\<close> when \<^verbatim>\<open>JSON.parse\<close> throws.\<close>

definition predictsNoChange :: "library \<Rightarrow> diff \<Rightarrow> jsval \<Rightarrow> bool option" where
  "predictsNoChange lib d predictedNewValue =
     (if strictEq (newValue d) predictedNewValue then Some True
      else (case JSON_parse lib (oldValue d) of
              None \<Rightarrow> None
            | Some old \<Rightarrow>
                (case JSON_parse lib predictedNewValue of
                   None \<Rightarrow> None
                 | Some predicted \<Rightarrow> Some (DEEPEQUAL lib old predicted))))"

text \<open>One round of the loop over the attributes of a resource: what it prints, and the
  error that leaves it, if any.\<close>

definition processAttribute ::
  "library \<Rightarrow> resource_change \<Rightarrow> plan \<Rightarrow> string \<Rightarrow> diff \<Rightarrow> event list \<times> error option" where
  "processAttribute lib rc json attribute d =
     (if shouldSkipDiffKnownAfter rc d attribute \<or> shouldSkipAlways rc attribute then ([], None)
      else if DEEPEQUAL lib (oldValue d) (newValue d) then ([], None)
      else
        (let line = AttributeLine (lineMarker d) attribute (oldValue d) (newValue d)
         in if oldValue d \<noteq> Null then
              (case getPredictedNewValue lib d rc json of
                 Inl e \<Rightarrow> ([], Some e)
               | Inr predictedNewValue \<Rightarrow>
                   if newValue d = Str KNOWN_AFTER_APPLY \<and> predictedNewValue \<noteq> Null then
                     (case predictsNoChange lib d predictedNewValue of
                        Some True \<Rightarrow> ([PredictedNoChange (lineMarker d) attribute], None)
                      | Some False \<Rightarrow> ([line], None)
                      | None \<Rightarrow> ([ComparisonFailed, line], None))
                   else ([line], None))
            else ([line], None)))"

fun processAttributes ::
  "library \<Rightarrow> resource_change \<Rightarrow> plan \<Rightarrow> (string \<times> diff) list \<Rightarrow> event list \<times> error option" where
  "processAttributes lib rc json [] = ([], None)"
| "processAttributes lib rc json ((attribute, d) # rest) =
     (case processAttribute lib rc json attribute d of
        (out, Some e) \<Rightarrow> (out, Some e)
      | (out, None) \<Rightarrow>
          (case processAttributes lib rc json rest of (out', r) \<Rightarrow> (out @ out', r)))"

text \<open>One round of the loop over \<^verbatim>\<open>resource_changes\<close>: what it prints, and the error that
  leaves it or the tally after it.\<close>

definition processResource ::
  "library \<Rightarrow> plan \<Rightarrow> change_count \<Rightarrow> resource_change \<Rightarrow> event list \<times> (error + change_count)" where
  "processResource lib json changeCount rc =
     (case getResourceChangeInfo (rc_actions rc) changeCount of
        (None, changeCount') \<Rightarrow> ([], Inr changeCount')
      | (Some changeInfo, changeCount') \<Rightarrow>
          (let header = ResourceHeader (symbols changeInfo) (rc_mode rc) (rc_type rc) (rc_name rc)
           in if changes changeInfo = [CHANGES DELETE] then
                ([header, CloseResource], Inr changeCount')
              else if changes changeInfo = [CHANGES READ] then
                ([header, CloseResource], Inr changeCount')
              else
                (let diffs = getAttributeDiffs lib (rc_after rc) (rc_before rc) (rc_after_unknown rc) rc
                 in case outcome diffs of
                      Inl e \<Rightarrow> (header # logged diffs, Inl e)
                    | Inr records \<Rightarrow>
                        (case processAttributes lib rc json records of
                           (out, Some e) \<Rightarrow> (header # logged diffs @ out, Inl e)
                         | (out, None) \<Rightarrow>
                             (header # logged diffs @ out @ [CloseResource], Inr changeCount')))))"

fun processResources ::
  "library \<Rightarrow> plan \<Rightarrow> change_count \<Rightarrow> resource_change list \<Rightarrow> event list \<times> (error + change_count)" where
  "processResources lib json changeCount [] = ([], Inr changeCount)"
| "processResources lib json changeCount (rc # rest) =
     (case processResource lib json changeCount rc of
        (out, Inl e) \<Rightarrow> (out, Inl e)
      | (out, Inr changeCount') \<Rightarrow>
          (case processResources lib json changeCount' rest of (out', r) \<Rightarrow> (out @ out', r)))"

text \<open>What reading and parsing the plan file gives.\<close>

datatype plan_file = FileNotFound | InvalidJSON | Parsed plan

definition noChanges :: change_count where
  "noChanges = \<lparr>count_read = 0, count_create = 0, count_update = 0, count_delete = 0,
                 count_unknown = 0\<rparr>"

text \<open>\<^verbatim>\<open>process(planFile)\<close>: the whole body is one \<^verbatim>\<open>try\<close>, whose handler prints the error
  and its stack.\<close>

definition process :: "library \<Rightarrow> string \<Rightarrow> plan_file \<Rightarrow> event list" where
  "process lib planFile content =
     (case content of
        FileNotFound \<Rightarrow>
          [UnexpectedError (Error (''Plan file not found: '' @ planFile)),
           ErrorStack (Error (''Plan file not found: '' @ planFile))]
      | InvalidJSON \<Rightarrow> [UnexpectedError SyntaxError, ErrorStack SyntaxError]
      | Parsed json \<Rightarrow>
          (case resource_changes json of
             None \<Rightarrow> [NoChangesOutput]
           | Some resources \<Rightarrow>
               (case processResources lib json noChanges resources of
                  (out, Inl e) \<Rightarrow> LeadingBlank # out @ [UnexpectedError e, ErrorStack e]
                | (out, Inr changeCount) \<Rightarrow>
                    LeadingBlank # out @
                      [PlanSummary (count_create changeCount) (count_update changeCount)
                         (count_delete changeCount),
                       TrailingBlank])))"

section \<open>A model of the libraries\<close>

text \<open>
  The theorems below hold for every library unless they say otherwise. The concrete runs
  need one; this section describes the packages and built-in functions as their
  documentation does, on the arguments the program passes.
\<close>

subsection \<open>Replacing a placeholder\<close>

definition placeholder :: "string \<Rightarrow> string" where
  "placeholder varKey = ''${'' @ varKey @ ''}''"

definition wordChar :: "char \<Rightarrow> bool" where
  "wordChar c =
     (isDigit c \<or> c = CHR ''_''
      \<or> (of_char (CHR ''a'') \<le> (of_char c :: nat) \<and> (of_char c :: nat) \<le> of_char (CHR ''z''))
      \<or> (of_char (CHR ''A'') \<le> (of_char c :: nat) \<and> (of_char c :: nat) \<le> of_char (CHR ''Z'')))"

text \<open>A variable name of letters, digits and underscores has no character that is special
  in a regular expression: the pattern built from it matches the text of its placeholder
  and nothing else.\<close>

definition plainName :: "string \<Rightarrow> bool" where
  "plainName varKey = list_all wordChar varKey"

text \<open>The replacement text of \<^verbatim>\<open>replace\<close> for a pattern without groups: \<^verbatim>\<open>$$\<close> is a dollar
  sign, \<^verbatim>\<open>$&\<close> the match, \<^verbatim>\<open>$`\<close> the text before the match, \<^verbatim>\<open>$'\<close> the text after it; every
  other character stands for itself.\<close>

fun expandReplacement :: "string \<Rightarrow> string \<Rightarrow> string \<Rightarrow> string \<Rightarrow> string" where
  "expandReplacement matched preceding following [] = []"
| "expandReplacement matched preceding following [c] = [c]"
| "expandReplacement matched preceding following (c # d # rest) =
     (if c = CHR ''$'' \<and> d = CHR ''$'' then CHR ''$'' # expandReplacement matched preceding following rest
      else if c = CHR ''$'' \<and> d = CHR ''&'' then matched @ expandReplacement matched preceding following rest
      else if c = CHR ''$'' \<and> d = CHR 0x60 then preceding @ expandReplacement matched preceding following rest
      else if c = CHR ''$'' \<and> d = CHR 0x27 then following @ expandReplacement matched preceding following rest
      else c # expandReplacement matched preceding following (d # rest))"

text \<open>A global replace: the text is scanned from the left, a match is replaced and the
  scan goes on behind it. \<open>preceding\<close> is the text already scanned.\<close>

function replacePlaceholder :: "string \<Rightarrow> string \<Rightarrow> string \<Rightarrow> string \<Rightarrow> string" where
  "replacePlaceholder varKey replacement preceding [] = []"
| "replacePlaceholder varKey replacement preceding (c # cs) =
     (if startsWith (c # cs) (placeholder varKey) then
        expandReplacement (placeholder varKey) preceding
            (drop (length (placeholder varKey)) (c # cs)) replacement
          @ replacePlaceholder varKey replacement (preceding @ placeholder varKey)
              (drop (length (placeholder varKey)) (c # cs))
      else c # replacePlaceholder varKey replacement (preceding @ [c]) cs)"
  by pat_completeness auto
termination
  by (relation "measure (\<lambda>(varKey, replacement, preceding, text). length text)")
     (auto simp: placeholder_def)

text \<open>A value in which no dollar sign is followed by \<^verbatim>\<open>$\<close>, \<^verbatim>\<open>&\<close>, a backquote or a quote
  stands for itself as replacement text.\<close>

fun literalValue :: "string \<Rightarrow> bool" where
  "literalValue [] = True"
| "literalValue [c] = True"
| "literalValue (c # d # rest) =
     ((c = CHR ''$'' \<longrightarrow> d \<notin> {CHR ''$'', CHR ''&'', CHR 0x60, CHR 0x27})
      \<and> literalValue (d # rest))"

text \<open>\<^verbatim>\<open>template.replace(new RegExp(`\\$\\{${varKey}\\}`, "gm"), value)\<close> for a plain variable
  name.\<close>

definition replaceVariable :: "string \<Rightarrow> jsval \<Rightarrow> string \<Rightarrow> error + string" where
  "replaceVariable varKey v template = Inr (replacePlaceholder varKey (toStr v) [] template)"

subsection \<open>The deepmerge package\<close>

text \<open>
  \<^verbatim>\<open>deepmerge(target, source)\<close> of the deepmerge package, version 4, with its default
  options: two arrays are concatenated; of an array and another value the source is
  taken; otherwise the result has the properties of the target and then those of the
  source, where a property of the source that is an array or an object and that the
  target has too is merged with the target's, and any other property of the source
  replaces the target's.
\<close>

fun isMergeableObject :: "jsval \<Rightarrow> bool" where
  "isMergeableObject (Arr xs) = True"
| "isMergeableObject (Obj kvs) = True"
| "isMergeableObject v = False"

definition ownProps :: "jsval \<Rightarrow> (string \<times> jsval) list" where
  "ownProps target = (case target of Obj kvs \<Rightarrow> kvs | _ \<Rightarrow> [])"

definition assignAll ::
  "(string \<times> jsval) list \<Rightarrow> (string \<times> jsval) list \<Rightarrow> (string \<times> jsval) list" where
  "assignAll props destination =
     fold (\<lambda>key d. case map_of props key of None \<Rightarrow> d | Some v \<Rightarrow> setKey key v d)
       (ownKeys props) destination"

fun mergeMergeable :: "jsval \<Rightarrow> jsval \<Rightarrow> jsval" where
  "mergeMergeable target (Arr ss) = (case target of Arr ts \<Rightarrow> Arr (ts @ ss) | _ \<Rightarrow> Arr ss)"
| "mergeMergeable target (Obj skvs) =
     (if isArray target then Obj skvs
      else Obj (assignAll
             (map (\<lambda>kv. (fst kv,
                    if isMergeableObject (snd kv) \<and> map_of (ownProps target) (fst kv) \<noteq> None
                    then mergeMergeable (the (map_of (ownProps target) (fst kv))) (snd kv)
                    else snd kv)) skvs)
             (ownProps target)))"
| "mergeMergeable target v = v"

definition deepmerge :: "jsval \<Rightarrow> jsval \<Rightarrow> error + jsval" where
  "deepmerge target source =
     (if isMergeableObject source then Inr (mergeMergeable target source)
      else if isArray target then Inr source
      else (case source of
              Undefined \<Rightarrow> Inl TypeError
            | Null \<Rightarrow> Inl TypeError
            | Str s \<Rightarrow>
                Inr (Obj (assignAll (map (\<lambda>i. (showNat i, Str [s ! i])) [0..<length s])
                            (ownProps target)))
            | _ \<Rightarrow> Inr (Obj (ownProps target))))"

subsection \<open>The deep-eql package\<close>

text \<open>\<^verbatim>\<open>deepEql(a, b)\<close> on parsed JSON: two arrays are equal when their elements are, in
  order; two objects, when they have the same property names and equal values under each
  name; two other values, when they are the same value.\<close>

fun deepEql :: "jsval \<Rightarrow> jsval \<Rightarrow> bool"
  and deepEqlItems :: "jsval list \<Rightarrow> jsval list \<Rightarrow> bool"
  and deepEqlProps :: "(string \<times> jsval) list \<Rightarrow> (string \<times> jsval) list \<Rightarrow> bool" where
  "deepEql (Arr xs) b = (case b of Arr ys \<Rightarrow> deepEqlItems xs ys | _ \<Rightarrow> False)"
| "deepEql (Obj kvs) b =
     (case b of Obj kvs' \<Rightarrow> length kvs = length kvs' \<and> deepEqlProps kvs kvs' | _ \<Rightarrow> False)"
| "deepEql Undefined b = (b = Undefined)"
| "deepEql Null b = (b = Null)"
| "deepEql (Bool x) b = (b = Bool x)"
| "deepEql (Num n) b = (b = Num n)"
| "deepEql (Str s) b = (b = Str s)"
| "deepEqlItems [] ys = (ys = [])"
| "deepEqlItems (x # xs) ys = (case ys of [] \<Rightarrow> False | y # ys' \<Rightarrow> deepEql x y \<and> deepEqlItems xs ys')"
| "deepEqlProps [] kvs' = True"
| "deepEqlProps (kv # kvs) kvs' =
     (case map_of kvs' (fst kv) of
        None \<Rightarrow> False
      | Some v' \<Rightarrow> deepEql (snd kv) v' \<and> deepEqlProps kvs kvs')"

subsection \<open>JSON.parse\<close>

text \<open>\<^verbatim>\<open>JSON.parse\<close> on the texts \<^verbatim>\<open>null\<close>, \<^verbatim>\<open>true\<close>, \<^verbatim>\<open>false\<close> and the decimal numerals. This
  model reports every other text as not parsable, which is what the function does for a
  text that is not JSON; it does not cover the texts of JSON strings, arrays and objects.\<close>

definition parseScalar :: "jsval \<Rightarrow> jsval option" where
  "parseScalar v =
     (let text = toStr v
      in if text = ''null'' then Some Null
         else if text = ''true'' then Some (Bool True)
         else if text = ''false'' then Some (Bool False)
         else if isArrayIndex text then Some (Num (digitsValue text))
         else None)"

definition node :: library where
  "node = \<lparr>DEEPMERGE = deepmerge, DEEPEQUAL = deepEql, JSON_parse = parseScalar,
           RegExp_replace = replaceVariable\<rparr>"

section \<open>Concrete plans\<close>

text \<open>A plan whose projected values hold the template of module \<^verbatim>\<open>app\<close> in the resource
  list of the root module, under its fully qualified address, and no child module
  \<^verbatim>\<open>module.app\<close>.\<close>

definition plannedInRootOnly :: plan where
  "plannedInRootOnly =
     \<lparr>resource_changes = Some [],
      configuration = Obj [],
      planned_values = Obj [(''root_module'', Obj
        [(''resources'', Arr [Obj [(''address'', Str ''module.app.data.template_file.policy'')]]),
         (''child_modules'', Arr [Obj [(''address'', Str ''module.other''), (''resources'', Arr [])]])])]\<rparr>"

text \<open>A plan whose configuration declares a bucket and no role policy.\<close>

definition configWithoutPolicy :: plan where
  "configWithoutPolicy =
     \<lparr>resource_changes = Some [],
      configuration = Obj [(''root_module'', Obj
        [(''resources'', Arr [Obj [(''address'', Str ''aws_s3_bucket.logs'')]])])],
      planned_values = Obj []\<rparr>"

text \<open>A resource change whose \<^verbatim>\<open>change\<close> object has no member \<^verbatim>\<open>after\<close>.\<close>

definition changeWithoutAfter :: resource_change where
  "changeWithoutAfter =
     \<lparr>rc_address = Str ''aws_s3_bucket.logs'', rc_mode = Str ''managed'',
      rc_type = Str ''aws_s3_bucket'', rc_name = Str ''logs'', rc_actions = [Str ''update''],
      rc_before = Obj [(''bucket'', Str ''logs'')], rc_after = Undefined,
      rc_after_unknown = Obj []\<rparr>"

text \<open>A \<^verbatim>\<open>template_file\<close> data source whose marker map has the two derived attributes.\<close>

definition templateData :: resource_change where
  "templateData =
     \<lparr>rc_address = Str ''data.template_file.policy'', rc_mode = Str ''data'',
      rc_type = Str ''template_file'', rc_name = Str ''policy'', rc_actions = [Str ''read''],
      rc_before = Null,
      rc_after = Obj [(''template'', Str ''{}''), (''vars'', Null)],
      rc_after_unknown = Obj [(''id'', Bool True), (''rendered'', Bool True)]\<rparr>"

text \<open>An update of a function: a key of each map alone, keys of two maps, and two keys
  whose new value and marker are arrays.\<close>

definition lambdaUpdate :: resource_change where
  "lambdaUpdate =
     \<lparr>rc_address = Str ''aws_lambda_function.api'', rc_mode = Str ''managed'',
      rc_type = Str ''aws_lambda_function'', rc_name = Str ''api'', rc_actions = [Str ''update''],
      rc_before = Obj [(''memory_size'', Num 128), (''timeout'', Num 3)],
      rc_after = Obj [(''memory_size'', Num 256),
                      (''environment'', Arr [Obj [(''variables'', Obj [(''STAGE'', Str ''prod'')])]]),
                      (''layers'', Arr [Str ''base'', Str ''extra''])],
      rc_after_unknown = Obj [(''last_modified'', Bool True),
                              (''environment'', Arr [Obj [(''variables'', Obj [(''TOKEN'', Bool True)])]]),
                              (''layers'', Arr [Bool False, Bool True, Bool True])]\<rparr>"

text \<open>An update of a role policy whose \<^verbatim>\<open>policy\<close> is unknown, and the creation of a
  bucket.\<close>

definition policyChange :: resource_change where
  "policyChange =
     \<lparr>rc_address = Str ''aws_iam_role_policy.deploy'', rc_mode = Str ''managed'',
      rc_type = Str ''aws_iam_role_policy'', rc_name = Str ''deploy'',
      rc_actions = [Str ''update''],
      rc_before = Obj [(''policy'', Str ''{}'')],
      rc_after = Obj [(''name'', Str ''deploy'')],
      rc_after_unknown = Obj [(''policy'', Bool True)]\<rparr>"

definition bucketCreate :: resource_change where
  "bucketCreate =
     \<lparr>rc_address = Str ''aws_s3_bucket.logs'', rc_mode = Str ''managed'',
      rc_type = Str ''aws_s3_bucket'', rc_name = Str ''logs'', rc_actions = [Str ''create''],
      rc_before = Null,
      rc_after = Obj [(''bucket'', Str ''logs'')],
      rc_after_unknown = Obj [(''arn'', Bool True)]\<rparr>"

text \<open>A configuration that declares the role policy with the given references of its
  \<^verbatim>\<open>policy\<close> expression.\<close>

definition declaredPolicy :: "jsval list \<Rightarrow> jsval" where
  "declaredPolicy references =
     Obj [(''root_module'', Obj [(''resources'', Arr
       [Obj [(''address'', Str ''aws_iam_role_policy.deploy''),
             (''expressions'', Obj [(''policy'', Obj [(''references'', Arr references)])])]])])]"


text \<open>A plan whose role policy reads one template, which the projected values lack.\<close>

definition planTemplateMissing :: plan where
  "planTemplateMissing =
     \<lparr>resource_changes = Some [policyChange, bucketCreate],
      configuration = declaredPolicy [Str ''data.template_file.policy''],
      planned_values = Obj [(''root_module'', Obj [(''resources'', Arr [])])]\<rparr>"


text \<open>A template resource of the projected values, with its body and its variables.\<close>

definition templateOf :: "string \<Rightarrow> (string \<times> jsval) list \<Rightarrow> jsval" where
  "templateOf body vars =
     Obj [(''address'', Str ''data.template_file.policy''),
          (''values'', Obj [(''template'', Str body), (''vars'', Obj vars)])]"

text \<open>Two variables, the value of the first being the placeholder of the second.\<close>

definition chainedVars :: "(string \<times> jsval) list" where
  "chainedVars = [(''a'', Str ''${b}''), (''b'', Str ''x'')]"

text \<open>The substitution as the specification words it, for comparison: one scan of the
  template in which the placeholder of a variable of the map is replaced by the value of
  the variable, the inserted value is not scanned, and every other character stays.\<close>

fun firstMatch :: "(string \<times> string) list \<Rightarrow> string \<Rightarrow> (string \<times> string) option" where
  "firstMatch [] text = None"
| "firstMatch ((varKey, v) # vars) text =
     (if startsWith text (placeholder varKey) then Some (varKey, v) else firstMatch vars text)"

function substituteOnce :: "(string \<times> string) list \<Rightarrow> string \<Rightarrow> string" where
  "substituteOnce vars [] = []"
| "substituteOnce vars (c # cs) =
     (case firstMatch vars (c # cs) of
        Some (varKey, v) \<Rightarrow>
          v @ substituteOnce vars (drop (length (placeholder varKey)) (c # cs))
      | None \<Rightarrow> c # substituteOnce vars cs)"
  by pat_completeness auto
termination
  by (relation "measure (\<lambda>(vars, text). length text)") (auto simp: placeholder_def)

section \<open>The change classifier classifies every action\<close>

lemma bindE_Inl_iff:
  "bindE m f = Inl e \<longleftrightarrow> m = Inl e \<or> (\<exists>x. m = Inr x \<and> f x = Inl e)"
  by (cases m) (auto simp: bindE_def)

lemma bindE_Inr_iff:
  "bindE m f = Inr y \<longleftrightarrow> (\<exists>x. m = Inr x \<and> f x = Inr y)"
  by (cases m) (auto simp: bindE_def)

lemma classifyActions_eq:
  "classifyActions as info c =
     (info\<lparr>symbols := symbols info @ map (\<lambda>a. symbolOf (actionKind a)) as,
           changes := changes info @ map (\<lambda>a. CHANGES (actionKind a)) as\<rparr>,
      fold tally (map actionKind as) c)"
  by (induction as arbitrary: info c) simp_all

lemma fold_tally_counts:
  "count_read (fold tally ks c) = count_read c + length (filter (\<lambda>k. k = READ) ks)"
  "count_create (fold tally ks c) = count_create c + length (filter (\<lambda>k. k = CREATE) ks)"
  "count_update (fold tally ks c) = count_update c + length (filter (\<lambda>k. k = UPDATE) ks)"
  "count_delete (fold tally ks c) = count_delete c + length (filter (\<lambda>k. k = DELETE) ks)"
  "count_unknown (fold tally ks c) = count_unknown c + length (filter (\<lambda>k. k = UNKNOWN) ks)"
proof (induction ks arbitrary: c)
  case Nil
  { case 1 show ?case by simp }
  { case 2 show ?case by simp }
  { case 3 show ?case by simp }
  { case 4 show ?case by simp }
  { case 5 show ?case by simp }
next
  case (Cons k ks)
  { case 1 show ?case by (cases k) (simp_all add: Cons.IH) }
  { case 2 show ?case by (cases k) (simp_all add: Cons.IH) }
  { case 3 show ?case by (cases k) (simp_all add: Cons.IH) }
  { case 4 show ?case by (cases k) (simp_all add: Cons.IH) }
  { case 5 show ?case by (cases k) (simp_all add: Cons.IH) }
qed

lemma actionKind_iff:
  "actionKind a = READ \<longleftrightarrow> a = Str ''read''"
  "actionKind a = CREATE \<longleftrightarrow> a = Str ''create''"
  "actionKind a = UPDATE \<longleftrightarrow> a = Str ''update''"
  "actionKind a = DELETE \<longleftrightarrow> a = Str ''delete''"
  "actionKind a = UNKNOWN \<longleftrightarrow>
     a \<notin> {Str ''read'', Str ''create'', Str ''update'', Str ''delete''}"
  by (auto simp: actionKind_def)

lemma CHANGES_actionKind:
  "CHANGES (actionKind a) =
     (if a = Str ''read'' then ''read'' else if a = Str ''create'' then ''create''
      else if a = Str ''update'' then ''update'' else if a = Str ''delete'' then ''delete''
      else ''unknown'')"
  by (simp add: actionKind_def)

lemma only_action_iff: "(length as = 1 \<and> as ! 0 = a) \<longleftrightarrow> as = [a]"
  by (cases as) auto

text \<open>
  Claim C8. \<^verbatim>\<open>getResourceChangeInfo\<close> returns \<^verbatim>\<open>null\<close> exactly when the action list is the
  single action \<^verbatim>\<open>no-op\<close>, and then leaves the tally as it was. For every other list it
  returns one symbol and one change kind per action, in the order of the actions; each
  counter of the tally grows by the number of actions of its kind, and an action that is
  none of \<^verbatim>\<open>read\<close>, \<^verbatim>\<open>create\<close>, \<^verbatim>\<open>update\<close>, \<^verbatim>\<open>delete\<close> is reported and counted as \<^verbatim>\<open>unknown\<close>. The
  function has no error outcome.
\<close>

theorem getResourceChangeInfo_classifies:
  "(fst (getResourceChangeInfo actions c) = None \<longleftrightarrow> actions = [Str ''no-op''])
   \<and> (actions = [Str ''no-op''] \<longrightarrow> snd (getResourceChangeInfo actions c) = c)
   \<and> (actions \<noteq> [Str ''no-op''] \<longrightarrow>
        (\<exists>info c'. getResourceChangeInfo actions c = (Some info, c')
           \<and> length (symbols info) = length actions
           \<and> symbols info = map (\<lambda>a. symbolOf (actionKind a)) actions
           \<and> changes info =
               map (\<lambda>a. if a = Str ''read'' then ''read'' else if a = Str ''create'' then ''create''
                        else if a = Str ''update'' then ''update''
                        else if a = Str ''delete'' then ''delete'' else ''unknown'') actions
           \<and> count_read c' = count_read c + length (filter (\<lambda>a. a = Str ''read'') actions)
           \<and> count_create c' = count_create c + length (filter (\<lambda>a. a = Str ''create'') actions)
           \<and> count_update c' = count_update c + length (filter (\<lambda>a. a = Str ''update'') actions)
           \<and> count_delete c' = count_delete c + length (filter (\<lambda>a. a = Str ''delete'') actions)
           \<and> count_unknown c' = count_unknown c
                 + length (filter (\<lambda>a. a \<notin> {Str ''read'', Str ''create'', Str ''update'',
                                              Str ''delete''}) actions)))"
proof (cases "actions = [Str ''no-op'']")
  case True
  then show ?thesis by (simp add: getResourceChangeInfo_def)
next
  case False
  then have run: "getResourceChangeInfo actions c =
      (Some \<lparr>symbols = map (\<lambda>a. symbolOf (actionKind a)) actions,
             changes = map (\<lambda>a. CHANGES (actionKind a)) actions\<rparr>,
       fold tally (map actionKind actions) c)"
    using only_action_iff [of actions "Str ''no-op''"]
    by (simp add: getResourceChangeInfo_def classifyActions_eq)
  have kinds: "map (\<lambda>a. CHANGES (actionKind a)) actions =
      map (\<lambda>a. if a = Str ''read'' then ''read'' else if a = Str ''create'' then ''create''
                else if a = Str ''update'' then ''update''
                else if a = Str ''delete'' then ''delete'' else ''unknown'') actions"
    by (simp add: CHANGES_actionKind)
  show ?thesis
    using False
    by (simp add: run kinds fold_tally_counts filter_map comp_def actionKind_iff del: map_eq_conv)
qed

theorem getResourceChangeInfo_classifies_witness:
  "[Str ''create'', Str ''replace''] \<noteq> [Str ''no-op'']
   \<and> (\<exists>info c'. getResourceChangeInfo [Str ''create'', Str ''replace''] noChanges = (Some info, c')
         \<and> changes info = [''create'', ''unknown'']
         \<and> count_create c' = 1 \<and> count_unknown c' = 1 \<and> count_delete c' = 0)
   \<and> fst (getResourceChangeInfo [Str ''no-op''] noChanges) = None"
  using getResourceChangeInfo_classifies [of "[Str ''create'', Str ''replace'']" noChanges]
    getResourceChangeInfo_classifies [of "[Str ''no-op'']" noChanges]
  by (auto simp: noChanges_def)

section \<open>The fallback of the planned-values lookup\<close>

text \<open>
  Claim C1. When the owning module is a named child module and the loop over the child
  modules returns nothing, \<^verbatim>\<open>getPlannedValuesModuleResource\<close> is meant to search the resource
  list of the root module. On \<open>plannedInRootOnly\<close>, where that list holds the resource under
  its fully qualified address, the call ends in a \<^verbatim>\<open>ReferenceError\<close> instead: the fallback
  reads the undeclared variable \<^verbatim>\<open>fullAddress\<close>.
\<close>

theorem planned_values_fallback_throws:
  "getPlannedValuesModuleResource ''data.template_file.policy'' ''app'' plannedInRootOnly
     = Inl (ReferenceError ''fullAddress'')"
  by (simp add: getPlannedValuesModuleResource_def plannedInRootOnly_def bindE_def
      getMatchingAddress_def)

text \<open>For a named module the resource list of the root module has no part in the result,
  and the result is never \<^verbatim>\<open>null\<close>: the call returns what the child module holds, or
  throws.\<close>

lemma root_list_not_consulted:
  "moduleName \<noteq> ''root_module'' \<Longrightarrow>
     getPlannedValuesModuleResource relativeAddress moduleName
       (fullJson\<lparr>planned_values :=
          Obj [(''root_module'', Obj [(''resources'', items), (''child_modules'', children)])]\<rparr>)
     = getPlannedValuesModuleResource relativeAddress moduleName
       (fullJson\<lparr>planned_values :=
          Obj [(''root_module'', Obj [(''resources'', items'), (''child_modules'', children)])]\<rparr>)"
  by (simp add: getPlannedValuesModuleResource_def bindE_def)

lemma searchChildModules_found:
  "searchChildModules relativeAddress moduleName children = Inr (Some found) \<Longrightarrow> found \<noteq> Null"
  by (induction children) (auto simp: bindE_Inr_iff split: if_splits)

lemma fallback_result:
  assumes "moduleName \<noteq> ''root_module''"
    and "getPlannedValuesModuleResource relativeAddress moduleName fullJson = Inr found"
  shows "found \<noteq> Null"
  using assms
  by (auto simp: getPlannedValuesModuleResource_def bindE_Inr_iff
      split: option.splits jsval.splits dest: searchChildModules_found)

section \<open>A declaration that is not found\<close>

text \<open>
  Claim C3. For an address that the consulted resource list does not declare,
  \<^verbatim>\<open>getConfigResourceWrapper\<close> is meant to throw the error
  \<^verbatim>\<open>Couldn't find change address\<close>. On \<open>configWithoutPolicy\<close> it returns a wrapper whose
  resource is \<^verbatim>\<open>null\<close>: \<^verbatim>\<open>getMatchingAddress\<close> answers \<^verbatim>\<open>null\<close> and the test before the
  \<^verbatim>\<open>throw\<close> compares with \<^verbatim>\<open>undefined\<close>.
\<close>

theorem config_lookup_returns_null:
  "getConfigResourceWrapper (Str ''aws_iam_role_policy.deploy'') configWithoutPolicy
     = Inr \<lparr>cw_resource = Null, cw_moduleName = ''root_module''\<rparr>"
  by (simp add: getConfigResourceWrapper_def configWithoutPolicy_def bindE_def
      getMatchingAddress_def)

text \<open>No call throws the error: what \<^verbatim>\<open>getConfigResourceWrapper\<close> throws is a \<^verbatim>\<open>TypeError\<close>
  or the error of \<^verbatim>\<open>getMatchingAddress\<close>.\<close>

lemma getProp_error: "getProp v k = Inl e \<Longrightarrow> e = TypeError"
  by (cases v) (auto split: if_splits option.splits)

lemma findAddress_error: "findAddress address items = Inl e \<Longrightarrow> e = TypeError"
  by (induction items) (auto simp: bindE_def split: sum.splits if_splits dest: getProp_error)

lemma findAddress_defined: "findAddress address items = Inr found \<Longrightarrow> found \<noteq> Undefined"
  by (induction items) (auto simp: bindE_def split: sum.splits if_splits)

lemma getMatchingAddress_error:
  "getMatchingAddress address items = Inl e \<Longrightarrow>
     e = TypeError \<or> e = Error ''items not array data type as expected.''"
  by (cases items) (auto simp: getMatchingAddress_def dest: findAddress_error)

lemma getMatchingAddress_defined:
  "getMatchingAddress address items = Inr found \<Longrightarrow> found \<noteq> Undefined"
  by (cases items) (auto simp: getMatchingAddress_def dest: findAddress_defined)

lemma getConfigResourceWrapper_errors:
  assumes "getConfigResourceWrapper fullAddress fullJson = Inl e"
  shows "e = TypeError \<or> e = Error ''items not array data type as expected.''"
proof (cases fullAddress)
  case (Str addr)
  let ?tokens = "splitOn (CHR ''.'') addr"
  show ?thesis
  proof (cases "length ?tokens \<le> 2")
    case True
    then show ?thesis
      using assms
      by (auto simp: Str getConfigResourceWrapper_def Let_def bindE_Inl_iff bindE_Inr_iff
          split: if_splits dest: getProp_error getMatchingAddress_error getMatchingAddress_defined)
  next
    case False
    then show ?thesis
      using assms
      by (auto simp: Str getConfigResourceWrapper_def Let_def bindE_Inl_iff bindE_Inr_iff
          split: if_splits dest: getProp_error getMatchingAddress_error getMatchingAddress_defined)
  qed
qed (use assms in \<open>simp_all add: getConfigResourceWrapper_def\<close>)

lemma not_found_never_thrown:
  "getConfigResourceWrapper fullAddress fullJson \<noteq> Inl (changeAddressNotFound address)"
  using getConfigResourceWrapper_errors [of fullAddress fullJson "changeAddressNotFound address"]
  by (auto simp: changeAddressNotFound_def)

section \<open>Absent state maps\<close>

text \<open>
  Claim C10. \<^verbatim>\<open>getAttributeDiffs\<close> is meant to take a new-state map that is \<^verbatim>\<open>undefined\<close> for
  an empty one. On \<open>changeWithoutAfter\<close>, whose old state has a key, it throws a
  \<^verbatim>\<open>TypeError\<close>: the key list is guarded against \<^verbatim>\<open>undefined\<close>, the read of the key's new
  value is guarded against \<^verbatim>\<open>null\<close> only.
\<close>

theorem undefined_new_state_throws:
  "outcome (getAttributeDiffs lib (rc_after changeWithoutAfter) (rc_before changeWithoutAfter)
      (rc_after_unknown changeWithoutAfter) changeWithoutAfter) = Inl TypeError"
  by (simp add: getAttributeDiffs_def changeWithoutAfter_def dropDerived_def isTemplateFile_def
      ownKeys_def keysOrEmpty_def combinedKeys_def isArrayIndex_def isDigit_def
      attributeDiff_def resolveOld_def resolveNew_def bindE_def missingOrEmpty_def
      isEmptyObject_def isObject_def)

text \<open>The other absent maps: an old map that is \<^verbatim>\<open>null\<close> or \<^verbatim>\<open>undefined\<close> and a new map that
  is \<^verbatim>\<open>null\<close> have no keys and give \<^verbatim>\<open>null\<close> for every key; a marker map that is \<^verbatim>\<open>null\<close> or
  \<^verbatim>\<open>undefined\<close> makes the call throw (\<open>outcome_failed_early\<close> below).\<close>

lemma absent_states:
  "resolveOld Null key = Inr Null" "resolveOld Undefined key = Inr Null"
  "resolveNew Null key = Inr Null" "resolveNew Undefined key = Inl TypeError"
  "keysOrEmpty Null = []" "keysOrEmpty Undefined = []"
  by (simp_all add: resolveOld_def resolveNew_def keysOrEmpty_def bindE_def)

section \<open>The keys of the diff set\<close>

lemma dropDerived_cases:
  "dropDerived rc a =
     (if isTemplateFile rc then
        (case a of
           Undefined \<Rightarrow> Inl TypeError
         | Null \<Rightarrow> Inl TypeError
         | Obj kvs \<Rightarrow> Inr (Obj (filter (\<lambda>kv. fst kv \<notin> {''id'', ''rendered''}) kvs))
         | v \<Rightarrow> Inr v)
      else Inr a)"
  by (cases a) (auto simp: dropDerived_def bindE_def intro: filter_cong)

lemma keys_setKey: "fst ` set (setKey k v kvs) = insert k (fst ` set kvs)"
  by (induction k v kvs rule: setKey.induct) auto

lemma distinct_setKey: "distinct (map fst kvs) \<Longrightarrow> distinct (map fst (setKey k v kvs))"
  by (induction kvs) (auto simp: keys_setKey)

lemma keys_fold_setKey:
  "fst ` set (fold (\<lambda>key d. setKey key v d) ks d0) = set ks \<union> fst ` set d0"
  by (induction ks arbitrary: d0) (simp_all add: keys_setKey)

lemma distinct_fold_setKey:
  "distinct (map fst d0) \<Longrightarrow> distinct (map fst (fold (\<lambda>key d. setKey key v d) ks d0))"
  by (induction ks arbitrary: d0) (simp_all add: distinct_setKey)

lemma set_ownKeys: "set (ownKeys kvs) = fst ` set kvs"
  by (auto simp: ownKeys_def)

lemma distinct_ownKeys: "distinct (map fst kvs) \<Longrightarrow> distinct (ownKeys kvs)"
  by (auto simp: ownKeys_def)

lemma set_combinedKeys: "set (combinedKeys a b c) = set a \<union> set b \<union> set c"
  by (simp add: combinedKeys_def set_ownKeys keys_fold_setKey Un_commute Un_left_commute)

lemma distinct_combinedKeys: "distinct (combinedKeys a b c)"
  by (simp add: combinedKeys_def distinct_ownKeys distinct_fold_setKey)

lemma diffLoop_keys:
  "snd (diffLoop lib n o' a keys) = Inr ds \<Longrightarrow> map fst ds = keys"
  by (induction keys arbitrary: ds) (auto split: sum.splits prod.splits)

lemma diffLoop_total:
  "(\<And>k. k \<in> set keys \<Longrightarrow> \<exists>r. attributeDiff lib n o' a k = Inr r)
     \<Longrightarrow> \<exists>ds. snd (diffLoop lib n o' a keys) = Inr ds"
proof (induction keys)
  case Nil
  then show ?case by simp
next
  case (Cons k keys)
  have "\<exists>r. attributeDiff lib n o' a k = Inr r" using Cons.prems by simp
  then obtain r where r: "attributeDiff lib n o' a k = Inr r" by blast
  have "\<exists>ds. snd (diffLoop lib n o' a keys) = Inr ds" using Cons by simp
  then obtain ds where ds: "snd (diffLoop lib n o' a keys) = Inr ds" by blast
  show ?case using r ds by (cases r; cases "diffLoop lib n o' a keys") auto
qed

lemma digitChar_isDigit: "d < 10 \<Longrightarrow> isDigit (digitChar d)"
  by (simp add: isDigit_def digitChar_def)

lemma showNat_digits: "list_all isDigit (showNat n)"
proof (induction n rule: showNat.induct)
  case (1 n)
  show ?case
  proof (cases "n < 10")
    case True
    then show ?thesis by (subst showNat.simps) (simp add: digitChar_isDigit)
  next
    case False
    then show ?thesis using 1 by (subst showNat.simps) (simp add: digitChar_isDigit)
  qed
qed

lemma showNat_not_name:
  "showNat n \<noteq> ''id''" "showNat n \<noteq> ''rendered''"
  "''id'' \<noteq> showNat n" "''rendered'' \<noteq> showNat n"
proof -
  have a: "\<not> list_all isDigit ''id''" and b: "\<not> list_all isDigit ''rendered''"
    by (simp_all add: isDigit_def)
  show "showNat n \<noteq> ''id''" "showNat n \<noteq> ''rendered''"
    "''id'' \<noteq> showNat n" "''rendered'' \<noteq> showNat n"
    using showNat_digits [of n] a b by metis+
qed

lemma keys_after_drop:
  "dropDerived rc a = Inr a' \<Longrightarrow>
     set (keysOrEmpty a') =
       set (keysOrEmpty a) - (if isTemplateFile rc then {''id'', ''rendered''} else {})"
proof (cases a)
  case (Obj kvs)
  assume "dropDerived rc a = Inr a'"
  then show ?thesis using Obj
    by (force simp: dropDerived_cases keysOrEmpty_def set_ownKeys split: if_splits)
qed (auto simp: dropDerived_cases keysOrEmpty_def showNat_not_name split: if_splits)


lemma ownKeys_empty_iff: "ownKeys kvs = [] \<longleftrightarrow> kvs = []"
  using set_ownKeys [of kvs] by (cases kvs) auto

lemma missingOrEmpty_eq:
  "missingOrEmpty v = Inr (v = Undefined \<or> v = Null \<or> v = Obj [])"
  by (cases v) (simp_all add: missingOrEmpty_def isEmptyObject_def isObject_def bindE_def
      ownKeys_empty_iff)

lemma getProp_total: "a \<noteq> Null \<Longrightarrow> a \<noteq> Undefined \<Longrightarrow> \<exists>v. getProp a k = Inr v"
  by (cases a) (auto split: option.splits)

lemma resolveOld_total: "\<exists>v. resolveOld oldState key = Inr v"
proof (cases "oldState = Null \<or> oldState = Undefined")
  case True
  then show ?thesis by (auto simp: resolveOld_def)
next
  case False
  then obtain v where "getProp oldState key = Inr v" using getProp_total by blast
  then show ?thesis using False by (simp add: resolveOld_def bindE_def missingOrEmpty_eq)
qed

lemma resolveNew_total: "newState \<noteq> Undefined \<Longrightarrow> \<exists>v. resolveNew newState key = Inr v"
proof (cases "newState = Null")
  case True
  then show ?thesis by (auto simp: resolveNew_def)
next
  case False
  assume "newState \<noteq> Undefined"
  then obtain v where "getProp newState key = Inr v" using False getProp_total by blast
  then show ?thesis using False by (simp add: resolveNew_def bindE_def missingOrEmpty_eq)
qed



lemma mapE_total:
  "(\<And>x. x \<in> set xs \<Longrightarrow> \<exists>y. f x = Inr y) \<Longrightarrow> \<exists>ys. mapE f xs = Inr ys"
proof (induction xs)
  case Nil
  then show ?case by simp
next
  case (Cons x xs)
  have "\<exists>y. f x = Inr y" using Cons.prems by simp
  then obtain y where y: "f x = Inr y" by blast
  have "\<exists>ys. mapE f xs = Inr ys" using Cons by simp
  then obtain ys where "mapE f xs = Inr ys" by blast
  then show ?case using y by simp
qed



section \<open>The merge of two arrays\<close>

lemma itemOrEmpty_cases:
  "itemOrEmpty items j = Obj [] \<or> (j < length items \<and> itemOrEmpty items j = items ! j)"
  by (auto simp: itemOrEmpty_def elemAt_def)

lemma itemOrEmpty_defined: "itemOrEmpty items j \<noteq> Undefined"
  by (auto simp: itemOrEmpty_def)

lemma mergeItem_scalar:
  "isScalar (itemOrEmpty afterItems j) \<Longrightarrow>
     mergeItem lib newItems afterItems j =
       Inr (if itemOrEmpty afterItems j = Bool False \<and> itemOrEmpty newItems j \<noteq> Null
            then itemOrEmpty newItems j else itemOrEmpty afterItems j)"
  by (simp add: mergeItem_def Let_def)

lemma mergeItem_structure:
  "\<not> isScalar (itemOrEmpty afterItems j) \<Longrightarrow>
     mergeItem lib newItems afterItems j =
       DEEPMERGE lib (itemOrEmpty newItems j) (itemOrEmpty afterItems j)"
  by (simp add: mergeItem_def Let_def)







lemma deepmerge_total:
  "s \<noteq> Null \<Longrightarrow> s \<noteq> Undefined \<Longrightarrow> \<exists>m. deepmerge t s = Inr m"
  by (cases s) (auto simp: deepmerge_def)






section \<open>When the diff builder returns\<close>

lemma itemOrEmpty_not_Null: "Null \<notin> set items \<Longrightarrow> itemOrEmpty items j \<noteq> Null"
  using itemOrEmpty_cases [of items j] by (auto simp: in_set_conv_nth)

lemma attributeDiff_total:
  assumes a: "a \<noteq> Null" "a \<noteq> Undefined"
    and n: "n \<noteq> Undefined"
    and lib: "\<forall>t s. s \<noteq> Null \<longrightarrow> s \<noteq> Undefined \<longrightarrow> (\<exists>m. DEEPMERGE lib t s = Inr m)"
    and nonull: "\<forall>items. getProp a key = Inr (Arr items) \<longrightarrow> Null \<notin> set items"
  shows "\<exists>r. attributeDiff lib n o' a key = Inr r"
proof -
  obtain ov where ov: "resolveOld o' key = Inr ov" using resolveOld_total by blast
  obtain nv where nv: "resolveNew n key = Inr nv" using resolveNew_total [OF n] by blast
  obtain av where av: "getProp a key = Inr av" using getProp_total [OF a] by blast
  show ?thesis
  proof (cases "av = Undefined \<or> av = Null \<or> av = Obj [] \<or> av = Bool True \<or> av = Bool False \<or> nv = Null")
    case True
    then show ?thesis
      by (auto simp: attributeDiff_def bindE_def ov nv av missingOrEmpty_eq)
  next
    case False
    show ?thesis
    proof (cases "\<exists>afterItems newItems. av = Arr afterItems \<and> nv = Arr newItems")
      case True
      then obtain afterItems newItems where arr: "av = Arr afterItems" "nv = Arr newItems" by blast
      have nn: "Null \<notin> set afterItems" using nonull av arr by simp
      have "\<And>j. j \<in> set [0..<max (length afterItems) (length newItems)]
          \<Longrightarrow> \<exists>y. mergeItem lib newItems afterItems j = Inr y"
      proof -
        fix j
        show "\<exists>y. mergeItem lib newItems afterItems j = Inr y"
        proof (cases "isScalar (itemOrEmpty afterItems j)")
          case True
          then show ?thesis by (simp add: mergeItem_scalar)
        next
          case False
          then show ?thesis
            using lib itemOrEmpty_not_Null [OF nn] itemOrEmpty_defined
            by (simp add: mergeItem_structure)
        qed
      qed
      then have "\<exists>items. combinedItems lib newItems afterItems = Inr items"
        unfolding combinedItems_def by (rule mapE_total)
      then obtain items where "combinedItems lib newItems afterItems = Inr items" by blast
      then show ?thesis using False arr
        by (simp add: attributeDiff_def bindE_def ov nv av missingOrEmpty_eq)
    next
      case noarr: False
      obtain m where m: "DEEPMERGE lib nv av = Inr m" using lib False by blast
      show ?thesis using False noarr m
        by (cases av; cases nv)
           (simp_all add: attributeDiff_def bindE_def ov nv av missingOrEmpty_eq)
    qed
  qed
qed

lemma map_of_filter_keys:
  "map_of (filter (\<lambda>kv. fst kv \<noteq> x \<and> fst kv \<noteq> y) kvs) k =
     (if k \<noteq> x \<and> k \<noteq> y then map_of kvs k else None)"
  by (induction kvs) auto

lemma getProp_after_drop:
  "dropDerived rc a = Inr a' \<Longrightarrow> getProp a' key = Inr (Arr items) \<Longrightarrow>
     getProp a key = Inr (Arr items)"
  by (cases a)
     (auto simp: dropDerived_cases map_of_filter_keys split: if_splits option.splits)

lemma dropDerived_defined:
  "dropDerived rc a = Inr a' \<Longrightarrow> a \<noteq> Null \<Longrightarrow> a \<noteq> Undefined \<Longrightarrow>
     a' \<noteq> Null \<and> a' \<noteq> Undefined"
  by (cases a) (auto simp: dropDerived_cases split: if_splits)

lemma dropDerived_total:
  "a \<noteq> Null \<Longrightarrow> a \<noteq> Undefined \<Longrightarrow> \<exists>a'. dropDerived rc a = Inr a'"
  by (cases a) (auto simp: dropDerived_cases)

lemma objectKeys_total:
  "a \<noteq> Null \<Longrightarrow> a \<noteq> Undefined \<Longrightarrow> objectKeys a = Inr (keysOrEmpty a)"
  by (cases a) (auto simp: keysOrEmpty_def)

lemma outcome_eq:
  assumes "dropDerived rc a = Inr a'" "a \<noteq> Null" "a \<noteq> Undefined"
  shows "outcome (getAttributeDiffs lib n o' a rc) =
      snd (diffLoop lib n o' a' (combinedKeys (keysOrEmpty o') (keysOrEmpty n) (keysOrEmpty a')))"
  using assms dropDerived_defined [OF assms]
  by (simp add: getAttributeDiffs_def objectKeys_total split: prod.splits)

lemma outcome_failed_early:
  "a = Null \<or> a = Undefined \<Longrightarrow> outcome (getAttributeDiffs lib n o' a rc) = Inl TypeError"
  by (auto simp: getAttributeDiffs_def dropDerived_cases split: sum.splits)

text \<open>
  Claim C7, amended. The records \<^verbatim>\<open>getAttributeDiffs\<close> returns have pairwise different
  keys, and their keys are the keys of the old map, of the new map and of the marker map,
  without \<^verbatim>\<open>id\<close> and \<^verbatim>\<open>rendered\<close> of the marker map when the resource is a \<^verbatim>\<open>template_file\<close>
  data source. The call returns when the marker map is neither \<^verbatim>\<open>null\<close> nor \<^verbatim>\<open>undefined\<close>,
  the new map is not \<^verbatim>\<open>undefined\<close>, no marker array holds a \<^verbatim>\<open>null\<close>, and the package returns
  for every source that is neither \<^verbatim>\<open>null\<close> nor \<^verbatim>\<open>undefined\<close>.
\<close>

theorem diff_keys:
  "(\<forall>records. outcome (getAttributeDiffs lib newState oldState afterState rc) = Inr records \<longrightarrow>
      distinct (map fst records)
      \<and> set (map fst records) =
          set (keysOrEmpty oldState) \<union> set (keysOrEmpty newState)
            \<union> (set (keysOrEmpty afterState)
                  - (if isTemplateFile rc then {''id'', ''rendered''} else {})))
   \<and> (afterState \<noteq> Null \<and> afterState \<noteq> Undefined \<and> newState \<noteq> Undefined
        \<and> (\<forall>t s. s \<noteq> Null \<longrightarrow> s \<noteq> Undefined \<longrightarrow> (\<exists>m. DEEPMERGE lib t s = Inr m))
        \<and> (\<forall>key items. getProp afterState key = Inr (Arr items) \<longrightarrow> Null \<notin> set items)
      \<longrightarrow> (\<exists>records. outcome (getAttributeDiffs lib newState oldState afterState rc) = Inr records))"
proof (cases "afterState = Null \<or> afterState = Undefined")
  case True
  then show ?thesis using outcome_failed_early [OF True] by auto
next
  case False
  then obtain a' where a': "dropDerived rc afterState = Inr a'"
    using dropDerived_total by blast
  let ?keys = "combinedKeys (keysOrEmpty oldState) (keysOrEmpty newState) (keysOrEmpty a')"
  have out: "outcome (getAttributeDiffs lib newState oldState afterState rc) =
      snd (diffLoop lib newState oldState a' ?keys)"
    using outcome_eq [OF a'] False by simp
  have keys: "set ?keys = set (keysOrEmpty oldState) \<union> set (keysOrEmpty newState)
      \<union> (set (keysOrEmpty afterState) - (if isTemplateFile rc then {''id'', ''rendered''} else {}))"
    by (simp add: set_combinedKeys keys_after_drop [OF a'])
  have first: "\<forall>records. outcome (getAttributeDiffs lib newState oldState afterState rc) = Inr records \<longrightarrow>
      distinct (map fst records)
      \<and> set (map fst records) =
          set (keysOrEmpty oldState) \<union> set (keysOrEmpty newState)
            \<union> (set (keysOrEmpty afterState)
                  - (if isTemplateFile rc then {''id'', ''rendered''} else {}))"
  proof (intro allI impI)
    fix records
    assume "outcome (getAttributeDiffs lib newState oldState afterState rc) = Inr records"
    then have "map fst records = ?keys" using out diffLoop_keys by metis
    then show "distinct (map fst records)
      \<and> set (map fst records) =
          set (keysOrEmpty oldState) \<union> set (keysOrEmpty newState)
            \<union> (set (keysOrEmpty afterState)
                  - (if isTemplateFile rc then {''id'', ''rendered''} else {}))"
      using keys distinct_combinedKeys by metis
  qed
  have second: "afterState \<noteq> Null \<and> afterState \<noteq> Undefined \<and> newState \<noteq> Undefined
        \<and> (\<forall>t s. s \<noteq> Null \<longrightarrow> s \<noteq> Undefined \<longrightarrow> (\<exists>m. DEEPMERGE lib t s = Inr m))
        \<and> (\<forall>key items. getProp afterState key = Inr (Arr items) \<longrightarrow> Null \<notin> set items)
      \<longrightarrow> (\<exists>records. outcome (getAttributeDiffs lib newState oldState afterState rc) = Inr records)"
  proof
    assume h: "afterState \<noteq> Null \<and> afterState \<noteq> Undefined \<and> newState \<noteq> Undefined
        \<and> (\<forall>t s. s \<noteq> Null \<longrightarrow> s \<noteq> Undefined \<longrightarrow> (\<exists>m. DEEPMERGE lib t s = Inr m))
        \<and> (\<forall>key items. getProp afterState key = Inr (Arr items) \<longrightarrow> Null \<notin> set items)"
    have d: "a' \<noteq> Null" "a' \<noteq> Undefined" using dropDerived_defined [OF a'] h by simp_all
    have nonull: "\<And>key. \<forall>items. getProp a' key = Inr (Arr items) \<longrightarrow> Null \<notin> set items"
      using getProp_after_drop [OF a'] h by blast
    have "\<And>k. k \<in> set ?keys \<Longrightarrow> \<exists>r. attributeDiff lib newState oldState a' k = Inr r"
      using attributeDiff_total [OF d _ _ nonull] h by blast
    then have "\<exists>ds. snd (diffLoop lib newState oldState a' ?keys) = Inr ds"
      by (rule diffLoop_total)
    then show "\<exists>records. outcome (getAttributeDiffs lib newState oldState afterState rc) = Inr records"
      using out by simp
  qed
  show ?thesis using first second by blast
qed


lemma keysOrEmpty_Obj: "set (keysOrEmpty (Obj kvs)) = fst ` set kvs"
  by (simp add: keysOrEmpty_def set_ownKeys)

theorem diff_keys_witness:
  "\<exists>records.
     outcome (getAttributeDiffs node (rc_after lambdaUpdate) (rc_before lambdaUpdate)
        (rc_after_unknown lambdaUpdate) lambdaUpdate) = Inr records
     \<and> distinct (map fst records)
     \<and> set (map fst records) =
         {''memory_size'', ''timeout'', ''environment'', ''layers'', ''last_modified''}"
proof -
  have h: "rc_after_unknown lambdaUpdate \<noteq> Null \<and> rc_after_unknown lambdaUpdate \<noteq> Undefined
      \<and> rc_after lambdaUpdate \<noteq> Undefined
      \<and> (\<forall>t s. s \<noteq> Null \<longrightarrow> s \<noteq> Undefined \<longrightarrow> (\<exists>m. DEEPMERGE node t s = Inr m))
      \<and> (\<forall>key items. getProp (rc_after_unknown lambdaUpdate) key = Inr (Arr items)
            \<longrightarrow> Null \<notin> set items)"
    by (auto simp: lambdaUpdate_def node_def deepmerge_total split: if_splits)
  have notTemplate: "\<not> isTemplateFile lambdaUpdate"
    by (simp add: isTemplateFile_def lambdaUpdate_def)
  from diff_keys [of node "rc_after lambdaUpdate" "rc_before lambdaUpdate"
      "rc_after_unknown lambdaUpdate" lambdaUpdate] h
  obtain records where
    run: "outcome (getAttributeDiffs node (rc_after lambdaUpdate) (rc_before lambdaUpdate)
        (rc_after_unknown lambdaUpdate) lambdaUpdate) = Inr records"
    and keys: "distinct (map fst records)"
      "set (map fst records) =
          set (keysOrEmpty (rc_before lambdaUpdate)) \<union> set (keysOrEmpty (rc_after lambdaUpdate))
            \<union> (set (keysOrEmpty (rc_after_unknown lambdaUpdate))
                  - (if isTemplateFile lambdaUpdate then {''id'', ''rendered''} else {}))"
    by blast
  have "set (map fst records) =
      {''memory_size'', ''timeout'', ''environment'', ''layers'', ''last_modified''}"
    unfolding keys(2) using notTemplate by (auto simp: lambdaUpdate_def keysOrEmpty_Obj)
  then show ?thesis using run keys(1) by blast
qed

text \<open>The claim as stated fails on \<open>templateData\<close>: \<^verbatim>\<open>id\<close> is a key of the marker map and
  of no record.\<close>

theorem derived_keys_omitted:
  "''id'' \<in> set (keysOrEmpty (rc_after_unknown templateData))
   \<and> outcome (getAttributeDiffs node (rc_after templateData) (rc_before templateData)
        (rc_after_unknown templateData) templateData)
       = Inr [(''template'', \<lparr>oldValue = Null, newValue = Str ''{}''\<rparr>),
              (''vars'', \<lparr>oldValue = Null, newValue = Null\<rparr>)]"
  by code_simp

section \<open>What the diff builder writes to\<close>





section \<open>When the predictor cannot predict\<close>

lemma startsWith_iff: "startsWith s p \<longleftrightarrow> prefix p s"
  by (induction s p rule: startsWith.induct) auto





section \<open>An error in one resource\<close>

lemma processResources_append:
  "processResources lib json c (xs @ ys) =
     (case processResources lib json c xs of
        (out, Inl e) \<Rightarrow> (out, Inl e)
      | (out, Inr c') \<Rightarrow>
          (case processResources lib json c' ys of (out', r) \<Rightarrow> (out @ out', r)))"
  by (induction xs arbitrary: c) (auto split: prod.splits sum.splits)

text \<open>
  Claim C2, amended. An error that leaves the round of one resource is caught by the one
  handler of \<^verbatim>\<open>process\<close>: after what the resources before it and the resource itself have
  printed, the run prints the error and its stack and ends. The output does not depend on
  the resources that follow, and it has no summary. A plan file that is missing or is not
  JSON ends the run through the same handler.
\<close>

theorem failure_ends_run:
  assumes resources: "resource_changes json = Some (finished @ rc # remaining)"
    and finished: "processResources lib json noChanges finished = (out, Inr changeCount)"
    and fails: "processResource lib json changeCount rc = (out', Inl e)"
  shows "process lib planFile (Parsed json)
      = LeadingBlank # out @ out' @ [UnexpectedError e, ErrorStack e]
    \<and> process lib planFile FileNotFound
      = [UnexpectedError (Error (''Plan file not found: '' @ planFile)),
         ErrorStack (Error (''Plan file not found: '' @ planFile))]
    \<and> process lib planFile InvalidJSON = [UnexpectedError SyntaxError, ErrorStack SyntaxError]"
  using assms by (simp add: process_def processResources_append)

text \<open>The only error that leaves the round of an attribute is the error of the
  predictor.\<close>

lemma processAttribute_fails_iff:
  "snd (processAttribute lib rc json attribute d) = Some e \<longleftrightarrow>
     \<not> shouldSkipDiffKnownAfter rc d attribute \<and> \<not> shouldSkipAlways rc attribute
     \<and> \<not> DEEPEQUAL lib (oldValue d) (newValue d) \<and> oldValue d \<noteq> Null
     \<and> getPredictedNewValue lib d rc json = Inl e"
  by (auto simp: processAttribute_def Let_def split: sum.splits option.splits bool.splits)

theorem failure_ends_run_witness:
  "resource_changes planTemplateMissing = Some ([] @ policyChange # [bucketCreate])
   \<and> processResources node planTemplateMissing noChanges [] = ([], Inr noChanges)
   \<and> processResource node planTemplateMissing noChanges policyChange
       = ([ResourceHeader [symbolOf UPDATE] (Str ''managed'') (Str ''aws_iam_role_policy'')
             (Str ''deploy'')],
          Inl (templateResourceNotFound ''data.template_file.policy''))
   \<and> process node ''plan.json'' (Parsed planTemplateMissing)
       = [LeadingBlank,
          ResourceHeader [symbolOf UPDATE] (Str ''managed'') (Str ''aws_iam_role_policy'')
             (Str ''deploy''),
          UnexpectedError (templateResourceNotFound ''data.template_file.policy''),
          ErrorStack (templateResourceNotFound ''data.template_file.policy'')]"
proof -
  have resources: "resource_changes planTemplateMissing = Some ([] @ policyChange # [bucketCreate])"
    by (simp add: planTemplateMissing_def)
  have finished: "processResources node planTemplateMissing noChanges [] = ([], Inr noChanges)"
    by simp
  have fails: "processResource node planTemplateMissing noChanges policyChange
       = ([ResourceHeader [symbolOf UPDATE] (Str ''managed'') (Str ''aws_iam_role_policy'')
             (Str ''deploy'')],
          Inl (templateResourceNotFound ''data.template_file.policy''))"
    by code_simp
  show ?thesis
    using failure_ends_run [OF resources finished fails, of "''plan.json''"]
      resources finished fails
    by simp
qed

text \<open>The claim as stated fails on \<open>planTemplateMissing\<close>: the template of the first
  resource is not found, and the run prints nothing for the second resource, which on
  its own is reported with two attributes.\<close>

theorem remaining_resource_skipped:
  "process node ''plan.json'' (Parsed planTemplateMissing)
     = [LeadingBlank,
        ResourceHeader [symbolOf UPDATE] (Str ''managed'') (Str ''aws_iam_role_policy'')
           (Str ''deploy''),
        UnexpectedError (templateResourceNotFound ''data.template_file.policy''),
        ErrorStack (templateResourceNotFound ''data.template_file.policy'')]
   \<and> processResource node planTemplateMissing noChanges bucketCreate
     = ([ResourceHeader [symbolOf CREATE] (Str ''managed'') (Str ''aws_s3_bucket'') (Str ''logs''),
         AttributeLine (Some CREATE) ''bucket'' Null (Str ''logs''),
         AttributeLine (Some CREATE) ''arn'' Null (Str KNOWN_AFTER_APPLY),
         CloseResource],
        Inr (noChanges\<lparr>count_create := 1\<rparr>))"
  by code_simp

section \<open>Rendering a template\<close>

lemma expand_literal:
  "literalValue v \<Longrightarrow> expandReplacement matched preceding following v = v"
  by (induction matched preceding following v rule: expandReplacement.induct) auto

lemma wordChar_plain: "wordChar c \<Longrightarrow> c \<noteq> CHR ''$'' \<and> c \<noteq> CHR ''}''"
  by (auto simp: wordChar_def isDigit_def)

lemma plainName_chars: "plainName k \<Longrightarrow> CHR ''$'' \<notin> set k \<and> CHR ''}'' \<notin> set k"
  using wordChar_plain by (auto simp: plainName_def list_all_iff)

lemma placeholder_Cons: "placeholder k = CHR ''$'' # CHR ''{'' # k @ ''}''"
  by (simp add: placeholder_def)

lemma replace_at_match:
  "literalValue v \<Longrightarrow>
     replacePlaceholder k v pre (placeholder k @ w) = v @ replacePlaceholder k v (pre @ placeholder k) w"
  by (simp add: placeholder_Cons expand_literal startsWith_iff)

lemma replace_no_dollar:
  "CHR ''$'' \<notin> set s \<Longrightarrow>
     replacePlaceholder k v pre (s @ w) = s @ replacePlaceholder k v (pre @ s) w"
proof (induction s arbitrary: pre)
  case Nil
  then show ?case by simp
next
  case (Cons c s)
  then have "\<not> startsWith (c # s @ w) (placeholder k)"
    by (auto simp: placeholder_Cons)
  then show ?case using Cons by simp
qed

lemma match_inside:
  assumes k: "CHR ''$'' \<notin> set k"
    and m: "prefix (placeholder k) (u @ CHR ''$'' # r)"
    and u: "u \<noteq> []"
  shows "prefix (placeholder k) u"
proof (rule ccontr)
  assume n: "\<not> prefix (placeholder k) u"
  from m obtain rest where eq: "u @ CHR ''$'' # r = placeholder k @ rest"
    by (auto simp: prefix_def)
  have len: "length u < length (placeholder k)"
  proof (rule ccontr)
    assume "\<not> length u < length (placeholder k)"
    then have "length (placeholder k) \<le> length u" by simp
    then have "take (length (placeholder k)) (u @ CHR ''$'' # r) = take (length (placeholder k)) u"
      by simp
    then have "placeholder k = take (length (placeholder k)) u" using eq by simp
    then have "prefix (placeholder k) u" by (metis take_is_prefix)
    then show False using n by simp
  qed
  have "(u @ CHR ''$'' # r) ! length u = CHR ''$''" by simp
  then have "placeholder k ! length u = CHR ''$''" using eq len by (simp add: nth_append)
  moreover have "0 < length u" using u by simp
  ultimately have "CHR ''$'' \<in> set (tl (placeholder k))"
    using len by (metis Suc_pred in_set_conv_nth length_tl less_diff_conv nth_tl Suc_eq_plus1)
  then show False using k by (auto simp: placeholder_Cons)
qed


lemma replace_split:
  assumes k: "CHR ''$'' \<notin> set k" and v: "literalValue v"
  shows "replacePlaceholder k v pre (u @ CHR ''$'' # r) =
      replacePlaceholder k v pre u @ replacePlaceholder k v (pre @ u) (CHR ''$'' # r)"
proof (induction u arbitrary: pre rule: length_induct)
  case (1 u)
  show ?case
  proof (cases u)
    case Nil
    then show ?thesis by simp
  next
    case (Cons c cs)
    show ?thesis
    proof (cases "prefix (placeholder k) (u @ CHR ''$'' # r)")
      case True
      then have "prefix (placeholder k) u" using match_inside [OF k] Cons by blast
      then obtain u' where u': "u = placeholder k @ u'" by (auto simp: prefix_def)
      then have shorter: "length u' < length u" by (simp add: placeholder_def)
      have a: "replacePlaceholder k v pre (u @ CHR ''$'' # r) =
          v @ replacePlaceholder k v (pre @ placeholder k) (u' @ CHR ''$'' # r)"
        using replace_at_match [OF v, of k pre "u' @ CHR ''$'' # r"] u' by simp
      have b: "replacePlaceholder k v (pre @ placeholder k) (u' @ CHR ''$'' # r) =
          replacePlaceholder k v (pre @ placeholder k) u'
            @ replacePlaceholder k v ((pre @ placeholder k) @ u') (CHR ''$'' # r)"
        using 1 shorter by blast
      have c: "replacePlaceholder k v pre u = v @ replacePlaceholder k v (pre @ placeholder k) u'"
        using replace_at_match [OF v, of k pre u'] u' by simp
      show ?thesis unfolding a b c using u' by simp
    next
      case False
      then have no: "\<not> startsWith (c # cs @ CHR ''$'' # r) (placeholder k)"
        using Cons by (simp add: startsWith_iff)
      have "\<not> prefix (placeholder k) u" using False by (meson prefix_order.trans prefixI)
      then have no': "\<not> startsWith (c # cs) (placeholder k)"
        using Cons by (simp add: startsWith_iff)
      have "length cs < length u" using Cons by simp
      then have "replacePlaceholder k v (pre @ [c]) (cs @ CHR ''$'' # r) =
          replacePlaceholder k v (pre @ [c]) cs
            @ replacePlaceholder k v ((pre @ [c]) @ cs) (CHR ''$'' # r)"
        using 1 by blast
      then show ?thesis using no no' Cons by simp
    qed
  qed
qed


lemma replace_ignores_preceding:
  "literalValue v \<Longrightarrow> replacePlaceholder k v pre t = replacePlaceholder k v pre' t"
proof (induction t arbitrary: pre pre' rule: length_induct)
  case (1 t)
  have IH: "\<And>ys p p'. length ys < length t \<Longrightarrow>
      replacePlaceholder k v p ys = replacePlaceholder k v p' ys"
    using 1 by blast
  show ?case
  proof (cases t)
    case Nil
    then show ?thesis by simp
  next
    case (Cons c cs)
    have a: "replacePlaceholder k v (pre @ placeholder k) (drop (length (placeholder k)) (c # cs))
        = replacePlaceholder k v (pre' @ placeholder k) (drop (length (placeholder k)) (c # cs))"
      by (rule IH) (simp add: Cons placeholder_def)
    have b: "replacePlaceholder k v (pre @ [c]) cs = replacePlaceholder k v (pre' @ [c]) cs"
      by (rule IH) (simp add: Cons)
    show ?thesis
      by (simp only: Cons replacePlaceholder.simps a b expand_literal [OF 1(2)])
  qed
qed

lemma replace_own:
  assumes k: "plainName k" and v: "literalValue v"
  shows "replacePlaceholder k v [] (u @ placeholder k @ w) =
      replacePlaceholder k v [] u @ v @ replacePlaceholder k v [] w"
proof -
  have "replacePlaceholder k v [] (u @ placeholder k @ w) =
      replacePlaceholder k v [] u @ replacePlaceholder k v u (placeholder k @ w)"
    using replace_split [of k v "[]" u "CHR ''{'' # k @ ''}'' @ w"] plainName_chars [OF k] v
    by (simp add: placeholder_Cons)
  also have "replacePlaceholder k v u (placeholder k @ w) =
      v @ replacePlaceholder k v (u @ placeholder k) w"
    by (rule replace_at_match [OF v])
  also have "replacePlaceholder k v (u @ placeholder k) w = replacePlaceholder k v [] w"
    by (rule replace_ignores_preceding [OF v])
  finally show ?thesis .
qed

lemma same_name:
  assumes "x \<notin> set a" "x \<notin> set b" "prefix (a @ [x]) (b @ x # w)"
  shows "a = b"
  using assms
proof (induction a arbitrary: b)
  case Nil
  then show ?case by (cases b) auto
next
  case (Cons c a)
  then show ?case by (cases b) auto
qed


lemma replace_foreign:
  assumes k: "plainName k" and z: "plainName z" and kz: "k \<noteq> z" and v: "literalValue v"
  shows "replacePlaceholder k v [] (u @ placeholder z @ w) =
      replacePlaceholder k v [] u @ placeholder z @ replacePlaceholder k v [] w"
proof -
  have nomatch: "\<not> startsWith (placeholder z @ w) (placeholder k)"
  proof
    assume "startsWith (placeholder z @ w) (placeholder k)"
    then have "prefix (k @ ''}'') (z @ CHR ''}'' # w)"
      by (simp add: startsWith_iff placeholder_Cons)
    then have "k = z"
      using same_name [of "CHR ''}''" k z w] plainName_chars [OF k] plainName_chars [OF z] by simp
    then show False using kz by simp
  qed
  have tail: "CHR ''$'' \<notin> set (CHR ''{'' # z @ ''}'')" using plainName_chars [OF z] by simp
  have "replacePlaceholder k v [] (u @ placeholder z @ w) =
      replacePlaceholder k v [] u @ replacePlaceholder k v u (placeholder z @ w)"
    using replace_split [of k v "[]" u "CHR ''{'' # z @ ''}'' @ w"] plainName_chars [OF k] v
    by (simp add: placeholder_Cons)
  also have "replacePlaceholder k v u (placeholder z @ w) =
      CHR ''$'' # replacePlaceholder k v (u @ ''$'') ((CHR ''{'' # z @ ''}'') @ w)"
    using nomatch by (simp add: placeholder_Cons)
  also have "\<dots> = placeholder z @ replacePlaceholder k v (u @ ''$'' @ CHR ''{'' # z @ ''}'') w"
    using replace_no_dollar [OF tail, of k v "u @ ''$''" w] by (simp add: placeholder_Cons)
  also have "replacePlaceholder k v (u @ ''$'' @ CHR ''{'' # z @ ''}'') w = replacePlaceholder k v [] w"
    by (rule replace_ignores_preceding [OF v])
  finally show ?thesis .
qed

lemma replace_absent:
  "\<not> (\<exists>u w. t = u @ placeholder k @ w) \<Longrightarrow> replacePlaceholder k v pre t = t"
proof (induction t arbitrary: pre)
  case Nil
  then show ?case by simp
next
  case (Cons c cs)
  have "\<not> startsWith (c # cs) (placeholder k)"
  proof
    assume "startsWith (c # cs) (placeholder k)"
    then obtain w where "c # cs = [] @ placeholder k @ w"
      by (auto simp: startsWith_iff prefix_def)
    then show False using Cons.prems by blast
  qed
  moreover have "\<not> (\<exists>u w. cs = u @ placeholder k @ w)"
  proof
    assume "\<exists>u w. cs = u @ placeholder k @ w"
    then obtain u w where "cs = u @ placeholder k @ w" by blast
    then have "c # cs = (c # u) @ placeholder k @ w" by simp
    then show False using Cons.prems by blast
  qed
  ultimately show ?case using Cons.IH by simp
qed




lemma spliceVars_append:
  "spliceVars lib V (ks @ ks') t = bindE (spliceVars lib V ks t) (spliceVars lib V ks')"
  by (induction ks arbitrary: t) (auto simp: bindE_def split: sum.splits)

lemma single_pass:
  assumes engine: "\<forall>k v t. plainName k \<longrightarrow>
        RegExp_replace lib k v t = Inr (replacePlaceholder k (toStr v) [] t)"
    and k: "plainName k" and v: "map_of vars k = Some v"
  shows "spliceVars lib (Obj vars) [k] t = Inr (replacePlaceholder k (toStr v) [] t)"
  using assms by (simp add: bindE_def)

lemma absent_untouched:
  assumes engine: "\<forall>k v t. plainName k \<longrightarrow>
        RegExp_replace lib k v t = Inr (replacePlaceholder k (toStr v) [] t)"
    and z: "plainName z"
  shows "(\<forall>k \<in> set ks. plainName k \<and> k \<noteq> z
            \<and> (\<exists>v. map_of vars k = Some v \<and> literalValue (toStr v))) \<Longrightarrow>
     \<exists>a b. spliceVars lib (Obj vars) ks u = Inr a \<and> spliceVars lib (Obj vars) ks w = Inr b
       \<and> spliceVars lib (Obj vars) ks (u @ placeholder z @ w) = Inr (a @ placeholder z @ b)"
proof (induction ks arbitrary: u w)
  case Nil
  then show ?case by simp
next
  case (Cons k ks)
  then obtain v where k: "plainName k" "k \<noteq> z" and v: "map_of vars k = Some v"
    and lit: "literalValue (toStr v)" by auto
  let ?p = "\<lambda>t. replacePlaceholder k (toStr v) [] t"
  have step: "\<And>t. spliceVars lib (Obj vars) (k # ks) t = spliceVars lib (Obj vars) ks (?p t)"
    using engine k v by (simp add: bindE_def)
  have split: "?p (u @ placeholder z @ w) = ?p u @ placeholder z @ ?p w"
    by (rule replace_foreign [OF k(1) z k(2) lit])
  have "\<exists>a b. spliceVars lib (Obj vars) ks (?p u) = Inr a
      \<and> spliceVars lib (Obj vars) ks (?p w) = Inr b
      \<and> spliceVars lib (Obj vars) ks (?p u @ placeholder z @ ?p w) = Inr (a @ placeholder z @ b)"
    using Cons by simp
  then show ?case unfolding step split .
qed


text \<open>
  Claim C6, amended. Rendering takes the variables one after the other, in the order of
  the keys of the map, each pass working on the text the passes before it have left. For
  variable names of letters, digits and underscores, values without the replacement
  patterns \<^verbatim>\<open>$$\<close>, \<^verbatim>\<open>$&\<close>, \<^verbatim>\<open>$`\<close>, \<^verbatim>\<open>$'\<close>, and an engine that matches the pattern of such a name
  with the text of its placeholder:
  \<^item> the result for a template resource is the result of the passes over the body;
  \<^item> the passes for a list of keys followed by another are the passes for the first list,
    then the passes for the second on their result;
  \<^item> the pass of a variable replaces an occurrence of its placeholder by its value, as
    it is, and the parts of the text before and after the occurrence by what the pass
    makes of them: every occurrence is replaced and the inserted value is not scanned by
    this pass;
  \<^item> the pass of a variable leaves a text without its placeholder as it is;
  \<^item> the placeholder of a name of letters, digits and underscores that is not a key of
    the map stays where it is, between what rendering makes of the text before it and of
    the text after it;
  \<^item> \<^verbatim>\<open>arn:${region}:${name}\<close> with \<^verbatim>\<open>region\<close> \<^verbatim>\<open>us-east-1\<close> and \<^verbatim>\<open>name\<close> \<^verbatim>\<open>svc\<close> gives
    \<^verbatim>\<open>arn:us-east-1:svc\<close>.
\<close>

theorem rendering_passes:
  assumes engine: "\<forall>k v t. plainName k \<longrightarrow>
        RegExp_replace lib k v t = Inr (replacePlaceholder k (toStr v) [] t)"
    and names: "\<forall>(k, v) \<in> set vars. plainName k \<and> literalValue (toStr v)"
  shows "(\<forall>templateResource vals body.
        getProp templateResource ''values'' = Inr vals
        \<and> getProp vals ''template'' = Inr (Str body)
        \<and> getProp vals ''vars'' = Inr (Obj vars) \<longrightarrow>
        renderTemplateResource lib templateResource =
          bindE (spliceVars lib (Obj vars) (ownKeys vars) body) (\<lambda>rendered. Inr (Str rendered)))
     \<and> (\<forall>ks ks' t. spliceVars lib (Obj vars) (ks @ ks') t =
           bindE (spliceVars lib (Obj vars) ks t) (spliceVars lib (Obj vars) ks'))
     \<and> (\<forall>k v u w. map_of vars k = Some v \<longrightarrow>
           (\<exists>a b. spliceVars lib (Obj vars) [k] u = Inr a
              \<and> spliceVars lib (Obj vars) [k] w = Inr b
              \<and> spliceVars lib (Obj vars) [k] (u @ placeholder k @ w) = Inr (a @ toStr v @ b)))
     \<and> (\<forall>k t. k \<in> fst ` set vars \<and> \<not> (\<exists>u w. t = u @ placeholder k @ w) \<longrightarrow>
           spliceVars lib (Obj vars) [k] t = Inr t)
     \<and> (\<forall>z u w. plainName z \<and> z \<notin> fst ` set vars \<longrightarrow>
           (\<exists>a b. spliceVars lib (Obj vars) (ownKeys vars) u = Inr a
              \<and> spliceVars lib (Obj vars) (ownKeys vars) w = Inr b
              \<and> spliceVars lib (Obj vars) (ownKeys vars) (u @ placeholder z @ w)
                  = Inr (a @ placeholder z @ b)))
     \<and> renderTemplateResource node
          (templateOf ''arn:${region}:${name}'' [(''region'', Str ''us-east-1''), (''name'', Str ''svc'')])
         = Inr (Str ''arn:us-east-1:svc'')"
proof -
  have known: "\<And>k v. map_of vars k = Some v \<Longrightarrow> plainName k \<and> literalValue (toStr v)"
  proof -
    fix k v assume "map_of vars k = Some v"
    then have "(k, v) \<in> set vars" by (rule map_of_SomeD)
    then show "plainName k \<and> literalValue (toStr v)" using names by auto
  qed
  have present: "\<And>k. k \<in> fst ` set vars \<Longrightarrow> \<exists>v. map_of vars k = Some v"
  proof -
    fix k assume "k \<in> fst ` set vars"
    then have "map_of vars k \<noteq> None" by (simp add: map_of_eq_None_iff)
    then show "\<exists>v. map_of vars k = Some v" by simp
  qed
  have whole: "\<forall>templateResource vals body.
        getProp templateResource ''values'' = Inr vals
        \<and> getProp vals ''template'' = Inr (Str body)
        \<and> getProp vals ''vars'' = Inr (Obj vars) \<longrightarrow>
        renderTemplateResource lib templateResource =
          bindE (spliceVars lib (Obj vars) (ownKeys vars) body) (\<lambda>rendered. Inr (Str rendered))"
    by (simp add: renderTemplateResource_def bindE_def)
  have sequence: "\<forall>ks ks' t. spliceVars lib (Obj vars) (ks @ ks') t =
           bindE (spliceVars lib (Obj vars) ks t) (spliceVars lib (Obj vars) ks')"
    by (simp add: spliceVars_append)
  have own: "\<forall>k v u w. map_of vars k = Some v \<longrightarrow>
           (\<exists>a b. spliceVars lib (Obj vars) [k] u = Inr a
              \<and> spliceVars lib (Obj vars) [k] w = Inr b
              \<and> spliceVars lib (Obj vars) [k] (u @ placeholder k @ w) = Inr (a @ toStr v @ b))"
  proof (intro allI impI)
    fix k v u w
    assume v: "map_of vars k = Some v"
    then have k: "plainName k" and lit: "literalValue (toStr v)" using known by auto
    have "\<And>t. spliceVars lib (Obj vars) [k] t = Inr (replacePlaceholder k (toStr v) [] t)"
      by (rule single_pass [OF engine k v])
    then show "\<exists>a b. spliceVars lib (Obj vars) [k] u = Inr a
              \<and> spliceVars lib (Obj vars) [k] w = Inr b
              \<and> spliceVars lib (Obj vars) [k] (u @ placeholder k @ w) = Inr (a @ toStr v @ b)"
      using replace_own [OF k lit, of u w] by simp
  qed
  have none: "\<forall>k t. k \<in> fst ` set vars \<and> \<not> (\<exists>u w. t = u @ placeholder k @ w) \<longrightarrow>
           spliceVars lib (Obj vars) [k] t = Inr t"
  proof (intro allI impI)
    fix k t
    assume h: "k \<in> fst ` set vars \<and> \<not> (\<exists>u w. t = u @ placeholder k @ w)"
    then obtain v where v: "map_of vars k = Some v" using present by blast
    then have k: "plainName k" using known by auto
    show "spliceVars lib (Obj vars) [k] t = Inr t"
      using single_pass [OF engine k v, of t] replace_absent [of t k "toStr v" "[]"] h by simp
  qed
  have absent: "\<forall>z u w. plainName z \<and> z \<notin> fst ` set vars \<longrightarrow>
           (\<exists>a b. spliceVars lib (Obj vars) (ownKeys vars) u = Inr a
              \<and> spliceVars lib (Obj vars) (ownKeys vars) w = Inr b
              \<and> spliceVars lib (Obj vars) (ownKeys vars) (u @ placeholder z @ w)
                  = Inr (a @ placeholder z @ b))"
  proof (intro allI impI)
    fix z u w
    assume h: "plainName z \<and> z \<notin> fst ` set vars"
    have keys: "\<forall>k \<in> set (ownKeys vars). plainName k \<and> k \<noteq> z
            \<and> (\<exists>v. map_of vars k = Some v \<and> literalValue (toStr v))"
    proof
      fix k assume "k \<in> set (ownKeys vars)"
      then have in_vars: "k \<in> fst ` set vars" by (auto simp: ownKeys_def)
      then obtain v where v: "map_of vars k = Some v" using present by blast
      then show "plainName k \<and> k \<noteq> z \<and> (\<exists>v. map_of vars k = Some v \<and> literalValue (toStr v))"
        using known h in_vars by blast
    qed
    show "\<exists>a b. spliceVars lib (Obj vars) (ownKeys vars) u = Inr a
              \<and> spliceVars lib (Obj vars) (ownKeys vars) w = Inr b
              \<and> spliceVars lib (Obj vars) (ownKeys vars) (u @ placeholder z @ w)
                  = Inr (a @ placeholder z @ b)"
      using absent_untouched [OF engine _ keys] h by blast
  qed
  have example: "renderTemplateResource node
          (templateOf ''arn:${region}:${name}'' [(''region'', Str ''us-east-1''), (''name'', Str ''svc'')])
         = Inr (Str ''arn:us-east-1:svc'')"
    by code_simp
  show ?thesis by (intro conjI whole sequence own none absent example)
qed

theorem rendering_passes_witness:
  "plainName ''c''
   \<and> spliceVars node (Obj chainedVars) (ownKeys chainedVars) (''${a}:'' @ placeholder ''c'' @ ''!'')
       = Inr (''x:'' @ placeholder ''c'' @ ''!'')"
proof -
  have engine: "\<forall>k v t. plainName k \<longrightarrow>
        RegExp_replace node k v t = Inr (replacePlaceholder k (toStr v) [] t)"
    by (simp add: node_def replaceVariable_def)
  have names: "\<forall>(k, v) \<in> set chainedVars. plainName k \<and> literalValue (toStr v)"
    by (simp add: chainedVars_def plainName_def wordChar_def isDigit_def)
  have c: "plainName ''c'' \<and> ''c'' \<notin> fst ` set chainedVars"
    by (simp add: chainedVars_def plainName_def wordChar_def isDigit_def)
  have left: "spliceVars node (Obj chainedVars) (ownKeys chainedVars) ''${a}:'' = Inr ''x:''"
    by code_simp
  have right: "spliceVars node (Obj chainedVars) (ownKeys chainedVars) ''!'' = Inr ''!''"
    by code_simp
  have "\<exists>a b. spliceVars node (Obj chainedVars) (ownKeys chainedVars) ''${a}:'' = Inr a
      \<and> spliceVars node (Obj chainedVars) (ownKeys chainedVars) ''!'' = Inr b
      \<and> spliceVars node (Obj chainedVars) (ownKeys chainedVars)
            (''${a}:'' @ placeholder ''c'' @ ''!'') = Inr (a @ placeholder ''c'' @ b)"
    using rendering_passes [OF engine names, THEN conjunct2, THEN conjunct2, THEN conjunct2,
        THEN conjunct2, THEN conjunct1, rule_format, of "''c''" "''${a}:''" "''!''"] c
    by simp
  then obtain a b where "spliceVars node (Obj chainedVars) (ownKeys chainedVars) ''${a}:'' = Inr a"
    "spliceVars node (Obj chainedVars) (ownKeys chainedVars) ''!'' = Inr b"
    "spliceVars node (Obj chainedVars) (ownKeys chainedVars) (''${a}:'' @ placeholder ''c'' @ ''!'')
       = Inr (a @ placeholder ''c'' @ b)"
    by blast
  then have "spliceVars node (Obj chainedVars) (ownKeys chainedVars) (''${a}:'' @ placeholder ''c'' @ ''!'')
       = Inr (''x:'' @ placeholder ''c'' @ ''!'')"
    using left right by simp
  then show ?thesis by (intro conjI c [THEN conjunct1])
qed

text \<open>The claim as stated fails on \<open>chainedVars\<close>: the value of \<^verbatim>\<open>a\<close> is the placeholder of
  \<^verbatim>\<open>b\<close>, and the pass of \<^verbatim>\<open>b\<close> replaces it, where one substitution without a second look
  at the inserted value gives \<^verbatim>\<open>${b}\<close>.\<close>

theorem later_variable_resubstitutes:
  "renderTemplateResource node (templateOf ''${a}'' chainedVars) = Inr (Str ''x'')
   \<and> substituteOnce [(''a'', ''${b}''), (''b'', ''x'')] ''${a}'' = ''${b}''"
  by code_simp

end
